theory Spec2Isabelle
  imports Complex_Main
begin

section \<open>Distance oracle\<close>

text \<open>
  A JavaScript \<open>number\<close> is modelled as a real: the definitions below give the value of
  the arithmetic the program writes down, in exact arithmetic. The program computes in
  IEEE doubles, so its results differ from these values by rounding, and a double can be
  NaN where the exact value is defined: for two nearly antipodal points rounding can put
  the haversine term \<open>a\<close> above 1, and then \<open>Math.sqrt(1 - a)\<close> and the distance are NaN. No
  statement below is about rounding or NaN, and none uses a property of the distance
  beyond its value at the points of the examples (a point and itself, and the two poles),
  where the formula evaluates in closed form.

  \<open>Math.atan2 y x\<close> on finite arguments, as ECMAScript defines it: the angle of the point
  \<open>(x, y)\<close>, in \<open>(-pi, pi]\<close>, and \<open>0\<close> at the origin.
\<close>

definition Math_atan2 :: "real \<Rightarrow> real \<Rightarrow> real" where
  "Math_atan2 y x =
     (if 0 < x then arctan (y / x)
      else if x < 0 then (if 0 \<le> y then arctan (y / x) + pi else arctan (y / x) - pi)
      else if 0 < y then pi / 2
      else if y < 0 then - (pi / 2)
      else 0)"

text \<open>\<open>getDistance\<close> of \<open>functions/src/index.ts\<close> (the server copy).\<close>

definition functions_getDistance :: "real \<Rightarrow> real \<Rightarrow> real \<Rightarrow> real \<Rightarrow> real" where
  "functions_getDistance lat1 lon1 lat2 lon2 =
     (let R = 6371000;
          phi1 = lat1 * pi / 180;
          phi2 = lat2 * pi / 180;
          dphi = (lat2 - lat1) * pi / 180;
          dlam = (lon2 - lon1) * pi / 180;
          a = sin (dphi / 2) * sin (dphi / 2) +
              cos phi1 * cos phi2 *
              sin (dlam / 2) * sin (dlam / 2);
          c = 2 * Math_atan2 (sqrt a) (sqrt (1 - a))
      in R * c)"

text \<open>\<open>getDistance\<close> of \<open>src/utils/helpers.ts\<close> (the client helper).\<close>

definition helpers_getDistance :: "real \<Rightarrow> real \<Rightarrow> real \<Rightarrow> real \<Rightarrow> real" where
  "helpers_getDistance lat1 lon1 lat2 lon2 =
     (let R = 6371000; phi1 = lat1 * pi / 180; phi2 = lat2 * pi / 180;
          dphi = (lat2 - lat1) * pi / 180; dlam = (lon2 - lon1) * pi / 180;
          a = sin (dphi / 2) * sin (dphi / 2) + cos phi1 * cos phi2 * sin (dlam / 2) * sin (dlam / 2);
          c = 2 * Math_atan2 (sqrt a) (sqrt (1 - a))
      in R * c)"

section \<open>JavaScript values read from the stores\<close>

text \<open>
  The triggers read untyped documents and test them with \<open>!v\<close> and \<open>typeof v\<close>, so a
  field that the code tests this way is a JavaScript value; a missing field is
  \<open>JUndefined\<close>.
\<close>

datatype jsval = JUndefined | JNull | JNum real | JStr string | JBool bool

fun truthy :: "jsval \<Rightarrow> bool" where
  "truthy (JNum x) = (x \<noteq> 0)"
| "truthy (JStr s) = (s \<noteq> [])"
| "truthy (JBool b) = b"
| "truthy JUndefined = False"
| "truthy JNull = False"

fun is_number :: "jsval \<Rightarrow> bool" where
  "is_number (JNum x) = True"
| "is_number v = False"

text \<open>The number behind a value that passed \<open>typeof v === "number"\<close>.\<close>

fun the_number :: "jsval \<Rightarrow> real" where
  "the_number (JNum x) = x"
| "the_number v = 0"

text \<open>\<open>!s\<close> on an optional string: undefined and the empty string are falsy.\<close>

fun str_truthy :: "string option \<Rightarrow> bool" where
  "str_truthy None = False"
| "str_truthy (Some s) = (s \<noteq> [])"

section \<open>Data model\<close>

datatype ntype = low_battery | sos | geofence_entry | geofence_exit | info

text \<open>\<open>UserData\<close>, \<open>GeofenceData\<close> and \<open>LocationData\<close> of \<open>functions/src/index.ts\<close>.\<close>

record UserData =
  u_name :: "string option"
  u_familyId :: "string option"
  u_fcmToken :: "string option"
  u_role :: "string option"

record GeoCenter =
  c_latitude :: jsval
  c_longitude :: jsval

record GeofenceData =
  g_name :: "string option"
  g_familyId :: "string option"
  g_center :: "GeoCenter option"
  g_radius :: jsval

record LocationData =
  l_latitude :: jsval
  l_longitude :: jsval

text \<open>
  A document of the \<open>notifications\<close> collection: the fields both runtimes write
  (\<open>NotificationCoreData\<close> plus \<open>recipientUid\<close>, \<open>timestamp\<close>, \<open>read\<close>). The templated
  display strings \<open>title\<close> and \<open>message\<close> are left out. The server timestamp is in
  milliseconds.
\<close>

record Notification =
  n_familyId :: string
  n_type :: ntype
  n_triggeringUid :: "string option"
  n_relatedGeofenceId :: "string option"
  n_relatedLocation :: "(real \<times> real) option"
  n_recipientUid :: string
  n_timestamp :: int
  n_read :: bool

record NotificationCoreData =
  k_type :: ntype
  k_familyId :: string
  k_triggeringUid :: "string option"
  k_relatedGeofenceId :: "string option"
  k_relatedLocation :: "(real \<times> real) option"

text \<open>
  Firestore: the collections \<open>users\<close> and \<open>geofences\<close> as lists of documents (id, data) in
  query order, the collection \<open>notifications\<close> in order of insertion, and the tokens that
  \<open>messaging.sendToDevice\<close> delivered to. Storage calls are taken to succeed.
\<close>

record Db =
  users :: "(string \<times> UserData) list"
  geofences :: "(string \<times> GeofenceData) list"
  notifications :: "Notification list"
  delivered :: "string list"

text \<open>
  The push provider: \<open>sendToDevice\<close> resolves, or rejects with an error code. It is a
  parameter of the model, a function of the token.
\<close>

datatype push_error = registration_token_not_registered | invalid_registration_token | other_error

datatype push_result = Resolved | Threw push_error

section \<open>The server triggers (functions/src/index.ts)\<close>

definition LOW_BATTERY_THRESHOLD :: real where
  "LOW_BATTERY_THRESHOLD = 20"

definition COOLDOWN_lowBattery :: int where
  "COOLDOWN_lowBattery = 15 * 60 * 1000"

definition COOLDOWN_geofence :: int where
  "COOLDOWN_geofence = 5 * 60 * 1000"

definition clearToken :: "string \<Rightarrow> (string \<times> UserData) list \<Rightarrow> (string \<times> UserData) list" where
  "clearToken uid us = map (\<lambda>(i, u). if i = uid then (i, u\<lparr>u_fcmToken := None\<rparr>) else (i, u)) us"

definition stored :: "NotificationCoreData \<Rightarrow> string \<Rightarrow> int \<Rightarrow> Notification" where
  "stored core recipientUid now =
     \<lparr>n_familyId = k_familyId core, n_type = k_type core,
      n_triggeringUid = k_triggeringUid core,
      n_relatedGeofenceId = k_relatedGeofenceId core,
      n_relatedLocation = k_relatedLocation core,
      n_recipientUid = recipientUid, n_timestamp = now, n_read = False\<rparr>"

text \<open>
  \<open>sendAndStoreNotification\<close>: no token, return; send; store; an exception of the send
  skips the store and, for the two invalid-token codes, deletes the token.
\<close>

definition sendAndStoreNotification ::
  "(string \<Rightarrow> push_result) \<Rightarrow> int \<Rightarrow> string \<Rightarrow> NotificationCoreData \<Rightarrow> Db \<Rightarrow> Db" where
  "sendAndStoreNotification push now recipientUid core db =
     (let fcmToken = (case map_of (users db) recipientUid of
                        None \<Rightarrow> None
                      | Some userData \<Rightarrow> u_fcmToken userData)
      in if \<not> str_truthy fcmToken then db
         else (case fcmToken of
                 None \<Rightarrow> db
               | Some token \<Rightarrow>
                   (case push token of
                      Resolved \<Rightarrow>
                        db\<lparr>delivered := delivered db @ [token],
                           notifications := notifications db @ [stored core recipientUid now]\<rparr>
                    | Threw code \<Rightarrow>
                        if code = registration_token_not_registered \<or> code = invalid_registration_token
                        then db\<lparr>users := clearToken recipientUid (users db)\<rparr>
                        else db)))"

text \<open>
  The fan-out of all three triggers: the members of the family but the user, each handed to
  \<open>sendAndStoreNotification\<close>. The promises run one after the other here, in list order.
\<close>

definition membersOf :: "string \<Rightarrow> Db \<Rightarrow> string list" where
  "membersOf familyId db = map fst (filter (\<lambda>(i, u). u_familyId u = Some familyId) (users db))"

definition notifyOthers ::
  "(string \<Rightarrow> push_result) \<Rightarrow> int \<Rightarrow> string \<Rightarrow> string list \<Rightarrow> NotificationCoreData \<Rightarrow> Db \<Rightarrow> Db" where
  "notifyOthers push now userId members core db =
     fold (\<lambda>memberId. sendAndStoreNotification push now memberId core)
          (filter (\<lambda>memberId. memberId \<noteq> userId) members) db"

text \<open>A query ordered by \<open>timestamp\<close> descending, limit 1.\<close>

definition latest :: "Notification list \<Rightarrow> Notification list" where
  "latest ns = take 1 (sort_key (\<lambda>n. - n_timestamp n) ns)"

definition cooldownActive :: "int \<Rightarrow> int \<Rightarrow> Notification list \<Rightarrow> bool" where
  "cooldownActive now window snap =
     (case snap of
        [] \<Rightarrow> False
      | d # ds \<Rightarrow> now < n_timestamp d + window)"

subsection \<open>checkLowBattery\<close>

definition lowBatteryDetected :: "real option \<Rightarrow> real option \<Rightarrow> bool" where
  "lowBatteryDetected batteryLevel previousBatteryLevel =
     (case batteryLevel of
        None \<Rightarrow> False
      | Some b \<Rightarrow> b \<le> LOW_BATTERY_THRESHOLD \<and>
          (case previousBatteryLevel of None \<Rightarrow> True | Some p \<Rightarrow> p > LOW_BATTERY_THRESHOLD))"

definition recentNotifQuery :: "string \<Rightarrow> Db \<Rightarrow> Notification list" where
  "recentNotifQuery userId db =
     latest (filter (\<lambda>n. n_triggeringUid n = Some userId \<and> n_type n = low_battery) (notifications db))"

definition familyOf :: "string \<Rightarrow> Db \<Rightarrow> string option" where
  "familyOf userId db =
     (case map_of (users db) userId of
        None \<Rightarrow> None
      | Some userData \<Rightarrow> if str_truthy (u_familyId userData) then u_familyId userData else None)"

text \<open>
  The trigger returns whether the low-battery condition was detected, and the store after
  the run.
\<close>

definition checkLowBattery ::
  "(string \<Rightarrow> push_result) \<Rightarrow> int \<Rightarrow> string \<Rightarrow> real option \<Rightarrow> real option \<Rightarrow> Db \<Rightarrow> bool \<times> Db" where
  "checkLowBattery push now userId previousBatteryLevel batteryLevel db =
     (if lowBatteryDetected batteryLevel previousBatteryLevel then
        (if cooldownActive now COOLDOWN_lowBattery (recentNotifQuery userId db) then (True, db)
         else (case familyOf userId db of
                 None \<Rightarrow> (True, db)
               | Some familyId \<Rightarrow>
                   (True,
                    notifyOthers push now userId (membersOf familyId db)
                      \<lparr>k_type = low_battery, k_familyId = familyId,
                       k_triggeringUid = Some userId, k_relatedGeofenceId = None,
                       k_relatedLocation = None\<rparr> db)))
      else (False, db))"

subsection \<open>onSosActivated\<close>

text \<open>
  \<open>after\<close> is the value written at \<open>sosActive\<close> (\<open>JUndefined\<close> when the node does not
  exist), \<open>location\<close> the node \<open>currentLocation\<close> read from the live store. The reset of the
  trigger node is a write to the live store, outside \<open>Db\<close>.
\<close>

definition sosLocation :: "LocationData option \<Rightarrow> (real \<times> real) option" where
  "sosLocation location =
     (case location of
        None \<Rightarrow> None
      | Some l \<Rightarrow>
          if is_number (l_latitude l) \<and> is_number (l_longitude l)
          then Some (the_number (l_latitude l), the_number (l_longitude l))
          else None)"

definition onSosActivated ::
  "(string \<Rightarrow> push_result) \<Rightarrow> int \<Rightarrow> string \<Rightarrow> jsval \<Rightarrow> LocationData option \<Rightarrow> Db \<Rightarrow> Db" where
  "onSosActivated push now userId after location db =
     (if after \<noteq> JBool True then db
      else (case familyOf userId db of
              None \<Rightarrow> db
            | Some familyId \<Rightarrow>
                notifyOthers push now userId (membersOf familyId db)
                  \<lparr>k_type = sos, k_familyId = familyId,
                   k_triggeringUid = Some userId, k_relatedGeofenceId = None,
                   k_relatedLocation = sosLocation location\<rparr> db))"

subsection \<open>checkGeofences\<close>

definition fieldInvalid :: "jsval \<Rightarrow> bool" where
  "fieldInvalid v = (\<not> truthy v \<or> \<not> is_number v)"

definition locationInvalid :: "LocationData option \<Rightarrow> bool" where
  "locationInvalid location =
     (case location of
        None \<Rightarrow> True
      | Some l \<Rightarrow> fieldInvalid (l_latitude l) \<or> fieldInvalid (l_longitude l))"

definition fenceInvalid :: "GeofenceData \<Rightarrow> bool" where
  "fenceInvalid fence =
     (case g_center fence of
        None \<Rightarrow> True
      | Some c \<Rightarrow> fieldInvalid (c_latitude c) \<or> fieldInvalid (c_longitude c) \<or>
                  fieldInvalid (g_radius fence))"

text \<open>The event of one fence, from the two distances (lines 322 to 340).\<close>

definition checkGeofences_eventType ::
  "real \<Rightarrow> real \<Rightarrow> real \<Rightarrow> real \<Rightarrow> real \<Rightarrow> real \<Rightarrow> real \<Rightarrow> ntype option" where
  "checkGeofences_eventType oldLat oldLon newLat newLon centerLat centerLon radius =
     (let distanceOld = functions_getDistance oldLat oldLon centerLat centerLon;
          distanceNew = functions_getDistance newLat newLon centerLat centerLon;
          wasInside = distanceOld \<le> radius;
          isInside = distanceNew \<le> radius
      in if \<not> wasInside \<and> isInside then Some geofence_entry
         else if wasInside \<and> \<not> isInside then Some geofence_exit
         else None)"

definition cooldownQuery :: "string \<Rightarrow> string \<Rightarrow> ntype \<Rightarrow> Db \<Rightarrow> Notification list" where
  "cooldownQuery userId fenceId eventType db =
     latest (filter (\<lambda>n. n_triggeringUid n = Some userId \<and>
                          n_relatedGeofenceId n = Some fenceId \<and>
                          n_type n = eventType) (notifications db))"

text \<open>
  The run of a trigger keeps two traces beside the store: the events detected (the lines
  the code logs as entered or exited) and the events that passed the cooldown check.
\<close>

type_synonym trace = "(string \<times> ntype) list"

text \<open>The body of the loop over the fences of the family.\<close>

definition checkGeofences_fence ::
  "(string \<Rightarrow> push_result) \<Rightarrow> int \<Rightarrow> string \<Rightarrow> string \<Rightarrow> string list \<Rightarrow> LocationData \<Rightarrow> LocationData \<Rightarrow>
   string \<times> GeofenceData \<Rightarrow> trace \<times> trace \<times> Db \<Rightarrow> trace \<times> trace \<times> Db" where
  "checkGeofences_fence push now userId familyId members oldLocation newLocation fenceDoc acc =
     (case (fenceDoc, acc) of ((fenceId, fence), (detected, allowed, db)) \<Rightarrow>
        if fenceInvalid fence then acc
        else
          (case g_center fence of
             None \<Rightarrow> acc
           | Some center \<Rightarrow>
              (case checkGeofences_eventType
                      (the_number (l_latitude oldLocation)) (the_number (l_longitude oldLocation))
                      (the_number (l_latitude newLocation)) (the_number (l_longitude newLocation))
                      (the_number (c_latitude center)) (the_number (c_longitude center))
                      (the_number (g_radius fence)) of
                 None \<Rightarrow> acc
               | Some eventType \<Rightarrow>
                   if cooldownActive now COOLDOWN_geofence (cooldownQuery userId fenceId eventType db)
                   then (detected @ [(fenceId, eventType)], allowed, db)
                   else (detected @ [(fenceId, eventType)], allowed @ [(fenceId, eventType)],
                         notifyOthers push now userId members
                           \<lparr>k_type = eventType, k_familyId = familyId,
                            k_triggeringUid = Some userId, k_relatedGeofenceId = Some fenceId,
                            k_relatedLocation = Some (the_number (l_latitude newLocation),
                                                      the_number (l_longitude newLocation))\<rparr> db))))"

definition checkGeofences ::
  "(string \<Rightarrow> push_result) \<Rightarrow> int \<Rightarrow> string \<Rightarrow> LocationData option \<Rightarrow> LocationData option \<Rightarrow> Db \<Rightarrow>
   trace \<times> trace \<times> Db" where
  "checkGeofences push now userId oldLocation newLocation db =
     (if locationInvalid newLocation \<or> locationInvalid oldLocation then ([], [], db)
      else (case (oldLocation, newLocation) of
              (Some old, Some new) \<Rightarrow>
                (case familyOf userId db of
                   None \<Rightarrow> ([], [], db)
                 | Some familyId \<Rightarrow>
                     (let geofencesSnapshot = filter (\<lambda>(i, g). g_familyId g = Some familyId) (geofences db)
                      in if geofencesSnapshot = [] then ([], [], db)
                         else fold (checkGeofences_fence push now userId familyId (membersOf familyId db) old new)
                                   geofencesSnapshot ([], [], db)))
            | _ \<Rightarrow> ([], [], db)))"

section \<open>The client (src/utils/notifications.ts, src/app/(tabs)/index.tsx)\<close>

text \<open>
  \<open>NotificationPayload\<close> of the client has the fields of the server's
  \<open>NotificationCoreData\<close>; the client writes to the same \<open>notifications\<close> collection.
\<close>

type_synonym NotificationPayload = NotificationCoreData

definition getOtherFamilyMemberUids :: "string \<Rightarrow> string \<Rightarrow> Db \<Rightarrow> string list" where
  "getOtherFamilyMemberUids familyId selfUid db =
     (if familyId = [] \<or> selfUid = [] then []
      else filter (\<lambda>uid. uid \<noteq> selfUid) (membersOf familyId db))"

definition notificationData :: "NotificationPayload \<Rightarrow> int \<Rightarrow> string \<Rightarrow> Notification" where
  "notificationData payload now recipientUid =
     \<lparr>n_familyId = k_familyId payload, n_type = k_type payload,
      n_triggeringUid = (if str_truthy (k_triggeringUid payload) then k_triggeringUid payload else None),
      n_relatedGeofenceId = (if str_truthy (k_relatedGeofenceId payload) then k_relatedGeofenceId payload else None),
      n_relatedLocation = k_relatedLocation payload,
      n_recipientUid = recipientUid, n_timestamp = now, n_read = False\<rparr>"

definition createNotificationsForFamily ::
  "int \<Rightarrow> string \<Rightarrow> NotificationPayload \<Rightarrow> Db \<Rightarrow> bool \<times> Db" where
  "createNotificationsForFamily now senderUid payload db =
     (if k_familyId payload = [] then (False, db)
      else (let recipientUids = getOtherFamilyMemberUids (k_familyId payload) senderUid db
            in if recipientUids = [] then (True, db)
               else (True, db\<lparr>notifications :=
                                  notifications db @ map (notificationData payload now) recipientUids\<rparr>)))"

text \<open>The client's \<open>LiveData['currentLocation']\<close>, \<open>Geofence\<close> and \<open>UserProfile\<close>.\<close>

record ClientLocation =
  cl_latitude :: real
  cl_longitude :: real

record Geofence =
  f_id :: string
  f_name :: string
  f_center_latitude :: real
  f_center_longitude :: real
  f_radius :: real

record UserProfile =
  p_name :: string
  p_familyId :: "string option"
  p_batteryAlerts :: "bool option"

text \<open>The refs of \<open>MapScreen\<close> that the notification code reads and writes.\<close>

record Refs =
  previousUserLocation :: "ClientLocation option"
  lastLowBatteryAlertSent :: "int option"
  geofenceCooldowns :: "string \<Rightarrow> int option"

definition BATTERY_COOLDOWN_PERIOD :: int where
  "BATTERY_COOLDOWN_PERIOD = 15 * 60 * 1000"

definition GEOFENCE_COOLDOWN_PERIOD :: int where
  "GEOFENCE_COOLDOWN_PERIOD = 5 * 60 * 1000"

definition client_LOW_BATTERY_THRESHOLD :: int where
  "client_LOW_BATTERY_THRESHOLD = 20"

text \<open>\<open>!t || (now - t > period)\<close> on a time that may be unset.\<close>

definition cooldownOver :: "int \<Rightarrow> int \<Rightarrow> int option \<Rightarrow> bool" where
  "cooldownOver now period lastAlertTime =
     (case lastAlertTime of
        None \<Rightarrow> True
      | Some t \<Rightarrow> t = 0 \<or> now - t > period)"

definition familyIdOf :: "UserProfile option \<Rightarrow> string option" where
  "familyIdOf profile = (case profile of None \<Rightarrow> None | Some p \<Rightarrow> p_familyId p)"

subsection \<open>checkCurrentUserGeofences\<close>

definition checkCurrentUserGeofences_eventType ::
  "real \<Rightarrow> real \<Rightarrow> real \<Rightarrow> real \<Rightarrow> real \<Rightarrow> real \<Rightarrow> real \<Rightarrow> ntype option" where
  "checkCurrentUserGeofences_eventType oldLat oldLon newLat newLon centerLat centerLon radius =
     (let distanceOld = helpers_getDistance oldLat oldLon centerLat centerLon;
          distanceNew = helpers_getDistance newLat newLon centerLat centerLon;
          wasInside = distanceOld \<le> radius;
          isInside = distanceNew \<le> radius
      in if \<not> wasInside \<and> isInside then Some geofence_entry
         else if wasInside \<and> \<not> isInside then Some geofence_exit
         else None)"

text \<open>The body of \<open>geofences.forEach\<close>, with the same two traces as on the server. The state
  \<open>geofences\<close> of the screen is the argument \<open>fences\<close> below.\<close>

definition checkCurrentUserGeofences_fence ::
  "int \<Rightarrow> string \<Rightarrow> string \<Rightarrow> ClientLocation \<Rightarrow> ClientLocation \<Rightarrow> Geofence \<Rightarrow>
   trace \<times> trace \<times> Refs \<times> Db \<Rightarrow> trace \<times> trace \<times> Refs \<times> Db" where
  "checkCurrentUserGeofences_fence now uid familyId previousLoc currentLoc fence acc =
     (case acc of (detected, allowed, refs, db) \<Rightarrow>
        if f_center_latitude fence = 0 \<or> f_center_longitude fence = 0 \<or> f_radius fence = 0 then acc
        else
          (case checkCurrentUserGeofences_eventType
                  (cl_latitude previousLoc) (cl_longitude previousLoc)
                  (cl_latitude currentLoc) (cl_longitude currentLoc)
                  (f_center_latitude fence) (f_center_longitude fence) (f_radius fence) of
             None \<Rightarrow> acc
           | Some eventType \<Rightarrow>
               if cooldownOver now GEOFENCE_COOLDOWN_PERIOD (geofenceCooldowns refs (f_id fence))
               then (detected @ [(f_id fence, eventType)], allowed @ [(f_id fence, eventType)],
                     refs\<lparr>geofenceCooldowns := (geofenceCooldowns refs)(f_id fence \<mapsto> now)\<rparr>,
                     snd (createNotificationsForFamily now uid
                            \<lparr>k_type = eventType, k_familyId = familyId,
                             k_triggeringUid = Some uid, k_relatedGeofenceId = Some (f_id fence),
                             k_relatedLocation = Some (cl_latitude currentLoc, cl_longitude currentLoc)\<rparr> db))
               else (detected @ [(f_id fence, eventType)], allowed, refs, db)))"

definition checkCurrentUserGeofences ::
  "int \<Rightarrow> string option \<Rightarrow> UserProfile option \<Rightarrow> Geofence list \<Rightarrow> ClientLocation option \<Rightarrow>
   Refs \<times> Db \<Rightarrow> trace \<times> trace \<times> Refs \<times> Db" where
  "checkCurrentUserGeofences now user currentUserProfile fences newLocation st =
     (case st of (refs, db) \<Rightarrow>
        (case (user, newLocation, previousUserLocation refs, familyIdOf currentUserProfile) of
           (Some uid, Some currentLoc, Some previousLoc, Some familyId) \<Rightarrow>
             if cl_latitude currentLoc = 0 \<or> cl_latitude previousLoc = 0 \<or> fences = [] \<or> familyId = []
             then ([], [], refs, db)
             else fold (checkCurrentUserGeofences_fence now uid familyId previousLoc currentLoc)
                       fences ([], [], refs, db)
         | _ \<Rightarrow> ([], [], refs, db)))"

text \<open>
  The listener on \<open>liveData/memberId\<close> (lines 435 to 438): the geofence check runs for the
  user's own node when a previous location is held, and the new location becomes the
  previous one.
\<close>

definition onLiveData ::
  "int \<Rightarrow> string option \<Rightarrow> UserProfile option \<Rightarrow> Geofence list \<Rightarrow> string \<Rightarrow> ClientLocation option \<Rightarrow>
   Refs \<times> Db \<Rightarrow> trace \<times> trace \<times> Refs \<times> Db" where
  "onLiveData now user currentUserProfile fences memberId currentLocation st =
     (case st of (refs, db) \<Rightarrow>
        if Some memberId = user \<and> currentLocation \<noteq> None then
          (case (if previousUserLocation refs \<noteq> None
                 then checkCurrentUserGeofences now user currentUserProfile fences currentLocation st
                 else ([], [], refs, db)) of
             (detected, allowed, refs', db') \<Rightarrow>
               (detected, allowed, refs'\<lparr>previousUserLocation := currentLocation\<rparr>, db'))
        else ([], [], refs, db))"

subsection \<open>The battery listener\<close>

text \<open>
  The callback of \<open>Battery.addBatteryLevelListener\<close>; \<open>level\<close> is the fraction the device
  reports. It returns whether a notification was sent to the family. The writes of the
  level to the live store and to the member map are outside \<open>Db\<close>. \<open>level * 100\<close> is the
  exact product; the double product of the code can fall on the other side of a half, and
  then \<open>newLevel\<close> differs by one. What follows is about \<open>newLevel\<close>, the rounded reading.
\<close>

definition batteryListener ::
  "int \<Rightarrow> string \<Rightarrow> UserProfile option \<Rightarrow> real \<Rightarrow> Refs \<times> Db \<Rightarrow> bool \<times> Refs \<times> Db" where
  "batteryListener now uid profile level st =
     (case st of (refs, db) \<Rightarrow>
        (let newLevel = round (level * 100);
             currentFamilyId = familyIdOf profile
         in if newLevel \<le> client_LOW_BATTERY_THRESHOLD \<and> profile \<noteq> None \<and> str_truthy currentFamilyId then
              (case (profile, currentFamilyId) of
                 (Some p, Some familyId) \<Rightarrow>
                   if \<not> (case p_batteryAlerts p of None \<Rightarrow> True | Some b \<Rightarrow> b) then (False, refs, db)
                   else if cooldownOver now BATTERY_COOLDOWN_PERIOD (lastLowBatteryAlertSent refs)
                   then (True, refs\<lparr>lastLowBatteryAlertSent := Some now\<rparr>,
                         snd (createNotificationsForFamily now uid
                                \<lparr>k_type = low_battery, k_familyId = familyId,
                                 k_triggeringUid = Some uid, k_relatedGeofenceId = None,
                                 k_relatedLocation = None\<rparr> db))
                   else (False, refs, db)
               | _ \<Rightarrow> (False, refs, db))
            else if newLevel > client_LOW_BATTERY_THRESHOLD then (False, refs\<lparr>lastLowBatteryAlertSent := None\<rparr>, db)
            else (False, refs, db)))"

subsection \<open>handleSosPress\<close>

definition handleSosPress ::
  "int \<Rightarrow> string option \<Rightarrow> UserProfile option \<Rightarrow> ClientLocation option \<Rightarrow> Db \<Rightarrow> Db" where
  "handleSosPress now user currentUserProfile locationData db =
     (case (user, familyIdOf currentUserProfile) of
        (Some uid, Some familyId) \<Rightarrow>
          if familyId = [] then db
          else snd (createNotificationsForFamily now uid
                      \<lparr>k_type = sos, k_familyId = familyId,
                       k_triggeringUid = Some uid, k_relatedGeofenceId = None,
                       k_relatedLocation =
                         (case locationData of
                            None \<Rightarrow> None
                          | Some l \<Rightarrow> Some (cl_latitude l, cl_longitude l))\<rparr> db)
      | _ \<Rightarrow> db)"

section \<open>The geofence edit screen (app/geofences/[geofenceId].tsx)\<close>

definition MIN_RADIUS :: real where
  "MIN_RADIUS = 50"

definition MAX_RADIUS :: real where
  "MAX_RADIUS = 5000"

text \<open>
  \<open>String.prototype.trim\<close> on a string of code units below 256: it removes the white
  space and line terminators at both ends, which in that range are U+0009 to U+000D,
  U+0020 and U+00A0. The white space beyond that range (U+FEFF, U+2028 and the others)
  has no character here.
\<close>

definition is_space :: "char \<Rightarrow> bool" where
  "is_space c = (c \<in> set [CHR 0x20, CHR 0x09, CHR 0x0A, CHR 0x0B, CHR 0x0C, CHR 0x0D, CHR 0xA0])"

definition trim :: "string \<Rightarrow> string" where
  "trim s = rev (dropWhile is_space (rev (dropWhile is_space s)))"

text \<open>The state of \<open>GeofenceEditScreen\<close> that \<open>handleSave\<close> reads.\<close>

record EditScreen =
  e_user :: "string option"
  e_familyId :: "string option"
  e_isAdmin :: bool
  e_geofenceId :: string
  e_name :: string
  e_radius :: real
  e_center :: "(real \<times> real) option"

record GeofenceDocument =
  d_name :: string
  d_radius :: int
  d_center :: "real \<times> real"
  d_familyId :: string

datatype rejection = MissingUserOrFamily | PermissionDenied | NoCenter | NoName | RadiusOutOfRange

text \<open>
  The outcome of \<open>handleSave\<close>: an alert and no write, or the one write it issues
  (\<open>updateDoc\<close> on the edited document, \<open>addDoc\<close> for a new one).
\<close>

datatype save_outcome = Alert rejection | UpdateDoc string GeofenceDocument | AddDoc GeofenceDocument

definition handleSave :: "EditScreen \<Rightarrow> save_outcome" where
  "handleSave s =
     (if e_user s = None \<or> \<not> str_truthy (e_familyId s) then Alert MissingUserOrFamily
      else if \<not> e_isAdmin s then Alert PermissionDenied
      else (case e_center s of
              None \<Rightarrow> Alert NoCenter
            | Some center \<Rightarrow>
                if trim (e_name s) = [] then Alert NoName
                else if e_radius s < MIN_RADIUS \<or> e_radius s > MAX_RADIUS then Alert RadiusOutOfRange
                else (let geofenceDataToSave =
                            \<lparr>d_name = trim (e_name s), d_radius = round (e_radius s),
                             d_center = center,
                             d_familyId = (case e_familyId s of None \<Rightarrow> [] | Some f \<Rightarrow> f)\<rparr>;
                          isCreating = (e_geofenceId s = ''new'')
                      in if \<not> isCreating \<and> e_geofenceId s \<noteq> []
                         then UpdateDoc (e_geofenceId s) geofenceDataToSave
                         else AddDoc geofenceDataToSave)))"

section \<open>Runs over a sequence of battery readings\<close>

text \<open>
  The server trigger fires once per update of \<open>batteryLevel\<close>, with the value before and
  after; the client listener fires once per reading. A run feeds a sequence of timed
  readings to either and collects, per reading, whether a low-battery event came out.
\<close>

fun checkLowBattery_run ::
  "(string \<Rightarrow> push_result) \<Rightarrow> string \<Rightarrow> real option \<Rightarrow> (int \<times> real) list \<Rightarrow> Db \<Rightarrow> bool list" where
  "checkLowBattery_run push userId previous [] db = []"
| "checkLowBattery_run push userId previous ((now, level) # rest) db =
     (case checkLowBattery push now userId previous (Some level) db of
        (detected, db') \<Rightarrow> detected # checkLowBattery_run push userId (Some level) rest db')"

fun batteryListener_run ::
  "string \<Rightarrow> UserProfile option \<Rightarrow> (int \<times> real) list \<Rightarrow> Refs \<times> Db \<Rightarrow> bool list" where
  "batteryListener_run uid profile [] st = []"
| "batteryListener_run uid profile ((now, level) # rest) st =
     (case batteryListener now uid profile level st of
        (sent, st') \<Rightarrow> sent # batteryListener_run uid profile rest st')"

section \<open>Observations on a run\<close>

text \<open>
  The records a run added to the log, and the runs that only append records of a given
  kind. \<open>fromTo userId\<close> is a record triggered by \<open>userId\<close> and addressed to another uid.
\<close>

definition createdBy :: "Db \<Rightarrow> Db \<Rightarrow> Notification list" where
  "createdBy db db' = drop (length (notifications db)) (notifications db')"

definition extends :: "(Notification \<Rightarrow> bool) \<Rightarrow> Db \<Rightarrow> Db \<Rightarrow> bool" where
  "extends P db db' = (\<exists>xs. notifications db' = notifications db @ xs \<and> list_all P xs)"

definition fromTo :: "string \<Rightarrow> Notification \<Rightarrow> bool" where
  "fromTo userId n =
     (n_triggeringUid n = Some userId \<and> n_recipientUid n \<noteq> userId \<and>
      n_triggeringUid n \<noteq> Some (n_recipientUid n))"

text \<open>The token \<open>sendAndStoreNotification\<close> finds for a recipient, if it is set and not empty.\<close>

definition pushToken :: "string \<Rightarrow> Db \<Rightarrow> string option" where
  "pushToken recipientUid db =
     (case map_of (users db) recipientUid of
        None \<Rightarrow> None
      | Some userData \<Rightarrow> if str_truthy (u_fcmToken userData) then u_fcmToken userData else None)"

section \<open>Example data\<close>

text \<open>
  A family of two, Alice and Bob, with one fence at the pole (the coordinates at which the
  distance formula evaluates in closed form), and the client state of Alice's device.
\<close>

definition db0 :: Db where
  "db0 = \<lparr>users = [(''alice'', \<lparr>u_name = Some ''Alice'', u_familyId = Some ''fam'', u_fcmToken = Some ''tokA'', u_role = Some ''admin''\<rparr>),
                    (''bob'', \<lparr>u_name = Some ''Bob'', u_familyId = Some ''fam'', u_fcmToken = Some ''tokB'', u_role = None\<rparr>)],
          geofences = [(''home'', \<lparr>g_name = Some ''Home'', g_familyId = Some ''fam'',
                         g_center = Some \<lparr>c_latitude = JNum 90, c_longitude = JNum 90\<rparr>, g_radius = JNum 100\<rparr>)],
          notifications = [], delivered = []\<rparr>"

definition profile0 :: UserProfile where
  "profile0 = \<lparr>p_name = ''Alice'', p_familyId = Some ''fam'', p_batteryAlerts = None\<rparr>"

definition fence0 :: Geofence where
  "fence0 = \<lparr>f_id = ''home'', f_name = ''Home'', f_center_latitude = 90, f_center_longitude = 90, f_radius = 100\<rparr>"

definition refs0 :: Refs where
  "refs0 = \<lparr>previousUserLocation = None, lastLowBatteryAlertSent = None, geofenceCooldowns = (\<lambda>k. None)\<rparr>"

text \<open>The same store after Alice's entry at the fence was recorded for Bob at time 1000000.\<close>

definition note1 :: Notification where
  "note1 = \<lparr>n_familyId = ''fam'', n_type = geofence_entry, n_triggeringUid = Some ''alice'',
            n_relatedGeofenceId = Some ''home'', n_relatedLocation = Some (90, 90),
            n_recipientUid = ''bob'', n_timestamp = 1000000, n_read = False\<rparr>"

definition db1 :: Db where
  "db1 = db0\<lparr>notifications := [note1]\<rparr>"

definition gfence0 :: GeofenceData where
  "gfence0 = \<lparr>g_name = Some ''Home'', g_familyId = Some ''fam'',
               g_center = Some \<lparr>c_latitude = JNum 90, c_longitude = JNum 90\<rparr>, g_radius = JNum 100\<rparr>"

text \<open>
  A family of four: Bob has no token, the provider rejects Carol's token as not registered,
  Dave's push succeeds.
\<close>

definition db2 :: Db where
  "db2 = \<lparr>users = [(''alice'', \<lparr>u_name = Some ''Alice'', u_familyId = Some ''fam'', u_fcmToken = Some ''tokA'', u_role = Some ''admin''\<rparr>),
                    (''bob'', \<lparr>u_name = Some ''Bob'', u_familyId = Some ''fam'', u_fcmToken = None, u_role = None\<rparr>),
                    (''carol'', \<lparr>u_name = Some ''Carol'', u_familyId = Some ''fam'', u_fcmToken = Some ''tokC'', u_role = None\<rparr>),
                    (''dave'', \<lparr>u_name = Some ''Dave'', u_familyId = Some ''fam'', u_fcmToken = Some ''tokD'', u_role = None\<rparr>)],
          geofences = [], notifications = [], delivered = []\<rparr>"

definition push2 :: "string \<Rightarrow> push_result" where
  "push2 token = (if token = ''tokC'' then Threw registration_token_not_registered else Resolved)"

definition core0 :: NotificationCoreData where
  "core0 = \<lparr>k_type = geofence_entry, k_familyId = ''fam'', k_triggeringUid = Some ''alice'',
            k_relatedGeofenceId = Some ''home'', k_relatedLocation = Some (90, 90)\<rparr>"

text \<open>A client whose memory holds an alert at the fence and a low-battery alert, both at 1000000.\<close>

definition refs1 :: Refs where
  "refs1 = \<lparr>previousUserLocation = None, lastLowBatteryAlertSent = Some 1000000,
            geofenceCooldowns = (\<lambda>k. if k = ''home'' then Some 1000000 else None)\<rparr>"

text \<open>The edit screen of an admin creating a fence named Home, radius 200.4 m.\<close>

definition screen0 :: EditScreen where
  "screen0 = \<lparr>e_user = Some ''alice'', e_familyId = Some ''fam'', e_isAdmin = True, e_geofenceId = ''new'',
              e_name = ''  Home '', e_radius = 2004 / 10, e_center = Some (37, -122)\<rparr>"

text \<open>
  The store with an SOS of Alice recorded for Bob at time 1000000, and the store with a
  low battery of Alice recorded for Bob at time 1000000.
\<close>

definition db3 :: Db where
  "db3 = db0\<lparr>notifications :=
            [\<lparr>n_familyId = ''fam'', n_type = sos, n_triggeringUid = Some ''alice'',
              n_relatedGeofenceId = None, n_relatedLocation = None,
              n_recipientUid = ''bob'', n_timestamp = 1000000, n_read = False\<rparr>]\<rparr>"

definition note4 :: Notification where
  "note4 = \<lparr>n_familyId = ''fam'', n_type = low_battery, n_triggeringUid = Some ''alice'',
            n_relatedGeofenceId = None, n_relatedLocation = None,
            n_recipientUid = ''bob'', n_timestamp = 1000000, n_read = False\<rparr>"

definition db4 :: Db where
  "db4 = db0\<lparr>notifications := [note4]\<rparr>"

section \<open>Properties of the distance oracle\<close>

lemma functions_getDistance_self: "functions_getDistance lat lon lat lon = 0"
  by (simp add: functions_getDistance_def Math_atan2_def)

lemma helpers_is_functions: "helpers_getDistance = functions_getDistance"
  by (intro ext) (simp add: helpers_getDistance_def functions_getDistance_def)

section \<open>The transition detector\<close>

lemma checkGeofences_fence_detected:
  assumes "\<not> fenceInvalid fence" and "g_center fence = Some c"
  shows "fst (checkGeofences_fence push now userId familyId members old new (fenceId, fence) (detected, allowed, db)) =
         detected @ (case checkGeofences_eventType
                            (the_number (l_latitude old)) (the_number (l_longitude old))
                            (the_number (l_latitude new)) (the_number (l_longitude new))
                            (the_number (c_latitude c)) (the_number (c_longitude c))
                            (the_number (g_radius fence)) of
                       None \<Rightarrow> [] | Some e \<Rightarrow> [(fenceId, e)])"
  using assms by (simp add: checkGeofences_fence_def split: option.splits)

lemma checkCurrentUserGeofences_fence_detected:
  assumes "f_center_latitude fence \<noteq> 0" and "f_center_longitude fence \<noteq> 0" and "f_radius fence \<noteq> 0"
  shows "fst (checkCurrentUserGeofences_fence now uid familyId previousLoc currentLoc fence (detected, allowed, refs, db)) =
         detected @ (case checkCurrentUserGeofences_eventType
                            (cl_latitude previousLoc) (cl_longitude previousLoc)
                            (cl_latitude currentLoc) (cl_longitude currentLoc)
                            (f_center_latitude fence) (f_center_longitude fence) (f_radius fence) of
                       None \<Rightarrow> [] | Some e \<Rightarrow> [(f_id fence, e)])"
  using assms by (simp add: checkCurrentUserGeofences_fence_def split: option.splits)

lemma distance_pole_to_pole: "functions_getDistance (-90) 90 90 90 = 6371000 * pi"
  by (simp add: functions_getDistance_def Let_def Math_atan2_def)

lemma pole_is_far: "(100::real) < 6371000 * pi"
  using pi_ge_two by simp

text \<open>
  C1. For one pair of samples and one fence, the detector of either runtime gives an entry
  exactly when the previous sample is outside (distance to the center above the radius) and
  the current one inside (distance at most the radius), an exit exactly when the previous
  one is inside and the current one outside, and no event otherwise. For a fence that
  passes the validation of the loop, the loop body adds exactly that event, under the
  fence's id, to the events detected: one entry and no exit on a move from outside to
  inside.
\<close>

theorem transition_detector_entry_exit:
  "(checkGeofences_eventType oLat oLon nLat nLon cLat cLon r = Some geofence_entry) =
     (functions_getDistance oLat oLon cLat cLon > r \<and> functions_getDistance nLat nLon cLat cLon \<le> r)
   \<and> (checkGeofences_eventType oLat oLon nLat nLon cLat cLon r = Some geofence_exit) =
     (functions_getDistance oLat oLon cLat cLon \<le> r \<and> functions_getDistance nLat nLon cLat cLon > r)
   \<and> (checkGeofences_eventType oLat oLon nLat nLon cLat cLon r = None) =
     ((functions_getDistance oLat oLon cLat cLon \<le> r) = (functions_getDistance nLat nLon cLat cLon \<le> r))
   \<and> (checkCurrentUserGeofences_eventType oLat oLon nLat nLon cLat cLon r = Some geofence_entry) =
     (helpers_getDistance oLat oLon cLat cLon > r \<and> helpers_getDistance nLat nLon cLat cLon \<le> r)
   \<and> (checkCurrentUserGeofences_eventType oLat oLon nLat nLon cLat cLon r = Some geofence_exit) =
     (helpers_getDistance oLat oLon cLat cLon \<le> r \<and> helpers_getDistance nLat nLon cLat cLon > r)
   \<and> (checkCurrentUserGeofences_eventType oLat oLon nLat nLon cLat cLon r = None) =
     ((helpers_getDistance oLat oLon cLat cLon \<le> r) = (helpers_getDistance nLat nLon cLat cLon \<le> r))
   \<and> (\<not> fenceInvalid fence \<longrightarrow> g_center fence = Some c \<longrightarrow>
        fst (checkGeofences_fence push now userId familyId members old new (fenceId, fence) (detected, allowed, db)) =
        detected @ (case checkGeofences_eventType
                            (the_number (l_latitude old)) (the_number (l_longitude old))
                            (the_number (l_latitude new)) (the_number (l_longitude new))
                            (the_number (c_latitude c)) (the_number (c_longitude c))
                            (the_number (g_radius fence)) of
                       None \<Rightarrow> [] | Some e \<Rightarrow> [(fenceId, e)]))
   \<and> (f_center_latitude cfence \<noteq> 0 \<longrightarrow> f_center_longitude cfence \<noteq> 0 \<longrightarrow> f_radius cfence \<noteq> 0 \<longrightarrow>
        fst (checkCurrentUserGeofences_fence now uid familyId previousLoc currentLoc cfence (detected, allowed, refs, db)) =
        detected @ (case checkCurrentUserGeofences_eventType
                            (cl_latitude previousLoc) (cl_longitude previousLoc)
                            (cl_latitude currentLoc) (cl_longitude currentLoc)
                            (f_center_latitude cfence) (f_center_longitude cfence) (f_radius cfence) of
                       None \<Rightarrow> [] | Some e \<Rightarrow> [(f_id cfence, e)]))"
proof -
  have server: "checkGeofences_eventType oLat oLon nLat nLon cLat cLon r =
      (if functions_getDistance oLat oLon cLat cLon > r \<and> functions_getDistance nLat nLon cLat cLon \<le> r
       then Some geofence_entry
       else if functions_getDistance oLat oLon cLat cLon \<le> r \<and> functions_getDistance nLat nLon cLat cLon > r
       then Some geofence_exit else None)"
    by (auto simp: checkGeofences_eventType_def Let_def)
  have client: "checkCurrentUserGeofences_eventType oLat oLon nLat nLon cLat cLon r =
      (if helpers_getDistance oLat oLon cLat cLon > r \<and> helpers_getDistance nLat nLon cLat cLon \<le> r
       then Some geofence_entry
       else if helpers_getDistance oLat oLon cLat cLon \<le> r \<and> helpers_getDistance nLat nLon cLat cLon > r
       then Some geofence_exit else None)"
    by (auto simp: checkCurrentUserGeofences_eventType_def Let_def)
  have s1: "(checkGeofences_eventType oLat oLon nLat nLon cLat cLon r = Some geofence_entry) =
     (functions_getDistance oLat oLon cLat cLon > r \<and> functions_getDistance nLat nLon cLat cLon \<le> r)"
    unfolding server by auto
  have s2: "(checkGeofences_eventType oLat oLon nLat nLon cLat cLon r = Some geofence_exit) =
     (functions_getDistance oLat oLon cLat cLon \<le> r \<and> functions_getDistance nLat nLon cLat cLon > r)"
    unfolding server by auto
  have s3: "(checkGeofences_eventType oLat oLon nLat nLon cLat cLon r = None) =
     ((functions_getDistance oLat oLon cLat cLon \<le> r) = (functions_getDistance nLat nLon cLat cLon \<le> r))"
    unfolding server by auto
  have c1: "(checkCurrentUserGeofences_eventType oLat oLon nLat nLon cLat cLon r = Some geofence_entry) =
     (helpers_getDistance oLat oLon cLat cLon > r \<and> helpers_getDistance nLat nLon cLat cLon \<le> r)"
    unfolding client by auto
  have c2: "(checkCurrentUserGeofences_eventType oLat oLon nLat nLon cLat cLon r = Some geofence_exit) =
     (helpers_getDistance oLat oLon cLat cLon \<le> r \<and> helpers_getDistance nLat nLon cLat cLon > r)"
    unfolding client by auto
  have c3: "(checkCurrentUserGeofences_eventType oLat oLon nLat nLon cLat cLon r = None) =
     ((helpers_getDistance oLat oLon cLat cLon \<le> r) = (helpers_getDistance nLat nLon cLat cLon \<le> r))"
    unfolding client by auto
  show ?thesis
    using s1 s2 s3 c1 c2 c3
      checkGeofences_fence_detected [of fence c push now userId familyId members old new fenceId detected allowed db]
      checkCurrentUserGeofences_fence_detected [of cfence now uid familyId previousLoc currentLoc detected allowed refs db]
    by blast
qed

theorem transition_detector_entry_exit_witness:
  "checkGeofences_eventType (-90) 90 90 90 90 90 100 = Some geofence_entry
   \<and> checkCurrentUserGeofences_eventType (-90) 90 90 90 90 90 100 = Some geofence_entry
   \<and> fst (checkGeofences_fence (\<lambda>t. Resolved) 0 ''alice'' ''fam'' [''alice'', ''bob'']
            \<lparr>l_latitude = JNum (-90), l_longitude = JNum 90\<rparr> \<lparr>l_latitude = JNum 90, l_longitude = JNum 90\<rparr>
            (''home'', \<lparr>g_name = Some ''Home'', g_familyId = Some ''fam'',
                       g_center = Some \<lparr>c_latitude = JNum 90, c_longitude = JNum 90\<rparr>, g_radius = JNum 100\<rparr>)
            ([], [], \<lparr>users = [], geofences = [], notifications = [], delivered = []\<rparr>)) =
       [(''home'', geofence_entry)]
   \<and> fst (checkCurrentUserGeofences_fence 0 ''alice'' ''fam''
            \<lparr>cl_latitude = -90, cl_longitude = 90\<rparr> \<lparr>cl_latitude = 90, cl_longitude = 90\<rparr>
            \<lparr>f_id = ''home'', f_name = ''Home'', f_center_latitude = 90, f_center_longitude = 90, f_radius = 100\<rparr>
            ([], [], \<lparr>previousUserLocation = None, lastLowBatteryAlertSent = None, geofenceCooldowns = (\<lambda>k. None)\<rparr>,
             \<lparr>users = [], geofences = [], notifications = [], delivered = []\<rparr>)) =
       [(''home'', geofence_entry)]"
proof -
  have far: "functions_getDistance (-90) 90 90 90 > 100"
    by (simp only: distance_pole_to_pole pole_is_far)
  have near: "functions_getDistance 90 90 90 90 \<le> 100"
    by (simp add: functions_getDistance_self)
  have valid: "\<not> fenceInvalid \<lparr>g_name = Some ''Home'', g_familyId = Some ''fam'',
                       g_center = Some \<lparr>c_latitude = JNum 90, c_longitude = JNum 90\<rparr>, g_radius = JNum 100\<rparr>"
    by (simp add: fenceInvalid_def fieldInvalid_def)
  note t = transition_detector_entry_exit [where oLat = "-90" and oLon = 90 and nLat = 90 and nLon = 90
      and cLat = 90 and cLon = 90 and r = 100
      and fence = "\<lparr>g_name = Some ''Home'', g_familyId = Some ''fam'',
        g_center = Some \<lparr>c_latitude = JNum 90, c_longitude = JNum 90\<rparr>, g_radius = JNum 100\<rparr>"
      and c = "\<lparr>c_latitude = JNum 90, c_longitude = JNum 90\<rparr>"
      and push = "\<lambda>t. Resolved" and now = 0 and userId = "''alice''" and familyId = "''fam''"
      and members = "[''alice'', ''bob'']"
      and old = "\<lparr>l_latitude = JNum (-90), l_longitude = JNum 90\<rparr>"
      and new = "\<lparr>l_latitude = JNum 90, l_longitude = JNum 90\<rparr>"
      and fenceId = "''home''" and detected = "[]" and allowed = "[]"
      and db = "\<lparr>users = [], geofences = [], notifications = [], delivered = []\<rparr>"
      and cfence = "\<lparr>f_id = ''home'', f_name = ''Home'', f_center_latitude = 90, f_center_longitude = 90, f_radius = 100\<rparr>"
      and uid = "''alice''" and previousLoc = "\<lparr>cl_latitude = -90, cl_longitude = 90\<rparr>"
      and currentLoc = "\<lparr>cl_latitude = 90, cl_longitude = 90\<rparr>"
      and refs = "\<lparr>previousUserLocation = None, lastLowBatteryAlertSent = None, geofenceCooldowns = (\<lambda>k. None)\<rparr>"]
  have e: "checkGeofences_eventType (-90) 90 90 90 90 90 100 = Some geofence_entry"
    using t far near by blast
  have ec: "checkCurrentUserGeofences_eventType (-90) 90 90 90 90 90 100 = Some geofence_entry"
    using t far near by (simp add: helpers_is_functions)
  show ?thesis
    using t valid e ec by simp
qed

section \<open>The first sample and the validation of samples and fences\<close>

lemma fieldInvalid_iff: "fieldInvalid v = (v = JUndefined \<or> \<not> is_number v \<or> v = JNum 0)"
  by (cases v) (simp_all add: fieldInvalid_def)

lemma checkGeofences_invalid:
  "locationInvalid oldLocation \<or> locationInvalid newLocation \<Longrightarrow>
   checkGeofences push now userId oldLocation newLocation db = ([], [], db)"
  by (auto simp: checkGeofences_def)

lemma checkGeofences_fence_invalid:
  "fenceInvalid fence \<Longrightarrow>
   checkGeofences_fence push now userId familyId members old new (fenceId, fence) acc = acc"
  by (cases acc) (simp add: checkGeofences_fence_def)

text \<open>
  C6. With no previous location sample, no geofence event comes out, whatever the fences
  and the current sample: the server trigger returns before it reads any fence, the
  client's check returns at once, and the client's listener does not call the check.
  Neither trace gets an event and the store is unchanged.
\<close>

theorem first_sample_no_events:
  "checkGeofences push now userId None newLocation db = ([], [], db)
   \<and> checkCurrentUserGeofences now user profile fences currentLocation
         (refs\<lparr>previousUserLocation := None\<rparr>, db) = ([], [], refs\<lparr>previousUserLocation := None\<rparr>, db)
   \<and> (case onLiveData now user profile fences memberId currentLocation
               (refs\<lparr>previousUserLocation := None\<rparr>, db) of
         (detected, allowed, refs', db') \<Rightarrow> detected = [] \<and> allowed = [] \<and> db' = db)"
proof -
  have server: "checkGeofences push now userId None newLocation db = ([], [], db)"
    by (rule checkGeofences_invalid) (simp add: locationInvalid_def)
  have client: "checkCurrentUserGeofences now user profile fences currentLocation
         (refs\<lparr>previousUserLocation := None\<rparr>, db) = ([], [], refs\<lparr>previousUserLocation := None\<rparr>, db)"
    by (simp add: checkCurrentUserGeofences_def split: option.splits)
  have listener: "(case onLiveData now user profile fences memberId currentLocation
               (refs\<lparr>previousUserLocation := None\<rparr>, db) of
         (detected, allowed, refs', db') \<Rightarrow> detected = [] \<and> allowed = [] \<and> db' = db)"
    by (simp add: onLiveData_def)
  from server client listener show ?thesis by simp
qed

theorem first_sample_no_events_witness:
  "checkGeofences (\<lambda>t. Resolved) 1000 ''alice'' None
       (Some \<lparr>l_latitude = JNum 90, l_longitude = JNum 90\<rparr>) db0 = ([], [], db0)
   \<and> checkCurrentUserGeofences 1000 (Some ''alice'') (Some profile0) [fence0]
         (Some \<lparr>cl_latitude = 90, cl_longitude = 90\<rparr>) (refs0, db0) = ([], [], refs0, db0)"
  using first_sample_no_events [where push = "\<lambda>t. Resolved" and now = 1000 and userId = "''alice''"
      and newLocation = "Some \<lparr>l_latitude = JNum 90, l_longitude = JNum 90\<rparr>" and db = db0
      and user = "Some ''alice''" and profile = "Some profile0" and fences = "[fence0]"
      and currentLocation = "Some \<lparr>cl_latitude = 90, cl_longitude = 90\<rparr>" and refs = refs0
      and memberId = "''alice''"]
  by (simp add: refs0_def)

text \<open>
  C10. In the server trigger a sample is invalid when its latitude or longitude is
  missing, not a number, or 0, and so is a missing sample; an update with an invalid old
  or new sample gives no event and leaves the store as it is. A fence is invalid when its
  center is missing or its center latitude, center longitude or radius is missing, not a
  number, or 0; the loop skips it.
\<close>

theorem invalid_samples_and_fences_skipped:
  "(locationInvalid location =
      (case location of
         None \<Rightarrow> True
       | Some l \<Rightarrow> (l_latitude l = JUndefined \<or> \<not> is_number (l_latitude l) \<or> l_latitude l = JNum 0) \<or>
                   (l_longitude l = JUndefined \<or> \<not> is_number (l_longitude l) \<or> l_longitude l = JNum 0)))
   \<and> (locationInvalid oldLocation \<or> locationInvalid newLocation \<longrightarrow>
        checkGeofences push now userId oldLocation newLocation db = ([], [], db))
   \<and> (fenceInvalid fence =
        (case g_center fence of
           None \<Rightarrow> True
         | Some c \<Rightarrow> (c_latitude c = JUndefined \<or> \<not> is_number (c_latitude c) \<or> c_latitude c = JNum 0) \<or>
                     (c_longitude c = JUndefined \<or> \<not> is_number (c_longitude c) \<or> c_longitude c = JNum 0) \<or>
                     (g_radius fence = JUndefined \<or> \<not> is_number (g_radius fence) \<or> g_radius fence = JNum 0)))
   \<and> (fenceInvalid fence \<longrightarrow>
        checkGeofences_fence push now userId familyId members old new (fenceId, fence) acc = acc)"
proof -
  have loc: "locationInvalid location =
      (case location of
         None \<Rightarrow> True
       | Some l \<Rightarrow> (l_latitude l = JUndefined \<or> \<not> is_number (l_latitude l) \<or> l_latitude l = JNum 0) \<or>
                   (l_longitude l = JUndefined \<or> \<not> is_number (l_longitude l) \<or> l_longitude l = JNum 0))"
    by (simp add: locationInvalid_def fieldInvalid_iff split: option.splits)
  have fen: "fenceInvalid fence =
        (case g_center fence of
           None \<Rightarrow> True
         | Some c \<Rightarrow> (c_latitude c = JUndefined \<or> \<not> is_number (c_latitude c) \<or> c_latitude c = JNum 0) \<or>
                     (c_longitude c = JUndefined \<or> \<not> is_number (c_longitude c) \<or> c_longitude c = JNum 0) \<or>
                     (g_radius fence = JUndefined \<or> \<not> is_number (g_radius fence) \<or> g_radius fence = JNum 0))"
    by (simp add: fenceInvalid_def fieldInvalid_iff split: option.splits)
  show ?thesis
    using loc fen checkGeofences_invalid [of oldLocation newLocation push now userId db]
      checkGeofences_fence_invalid [of fence push now userId familyId members old new fenceId acc]
    by blast
qed

theorem invalid_samples_and_fences_skipped_witness:
  "locationInvalid (Some \<lparr>l_latitude = JNum 0, l_longitude = JNum 90\<rparr>)
   \<and> checkGeofences (\<lambda>t. Resolved) 1000 ''alice''
        (Some \<lparr>l_latitude = JNum (-90), l_longitude = JNum 90\<rparr>)
        (Some \<lparr>l_latitude = JNum 0, l_longitude = JNum 90\<rparr>) db0 = ([], [], db0)
   \<and> fenceInvalid \<lparr>g_name = Some ''Equator'', g_familyId = Some ''fam'',
         g_center = Some \<lparr>c_latitude = JNum 0, c_longitude = JNum 90\<rparr>, g_radius = JNum 100\<rparr>
   \<and> checkGeofences_fence (\<lambda>t. Resolved) 1000 ''alice'' ''fam'' [''alice'', ''bob'']
        \<lparr>l_latitude = JNum (-90), l_longitude = JNum 90\<rparr> \<lparr>l_latitude = JNum 90, l_longitude = JNum 90\<rparr>
        (''equator'', \<lparr>g_name = Some ''Equator'', g_familyId = Some ''fam'',
            g_center = Some \<lparr>c_latitude = JNum 0, c_longitude = JNum 90\<rparr>, g_radius = JNum 100\<rparr>)
        ([], [], db0) = ([], [], db0)"
proof -
  note t = invalid_samples_and_fences_skipped [where
      location = "Some \<lparr>l_latitude = JNum 0, l_longitude = JNum 90\<rparr>"
      and oldLocation = "Some \<lparr>l_latitude = JNum (-90), l_longitude = JNum 90\<rparr>"
      and newLocation = "Some \<lparr>l_latitude = JNum 0, l_longitude = JNum 90\<rparr>"
      and push = "\<lambda>t. Resolved" and now = 1000 and userId = "''alice''" and db = db0
      and fence = "\<lparr>g_name = Some ''Equator'', g_familyId = Some ''fam'',
         g_center = Some \<lparr>c_latitude = JNum 0, c_longitude = JNum 90\<rparr>, g_radius = JNum 100\<rparr>"
      and familyId = "''fam''" and members = "[''alice'', ''bob'']"
      and old = "\<lparr>l_latitude = JNum (-90), l_longitude = JNum 90\<rparr>"
      and new = "\<lparr>l_latitude = JNum 90, l_longitude = JNum 90\<rparr>"
      and fenceId = "''equator''" and acc = "([], [], db0)"]
  have l: "locationInvalid (Some \<lparr>l_latitude = JNum 0, l_longitude = JNum 90\<rparr>)"
    using t by simp
  have f: "fenceInvalid \<lparr>g_name = Some ''Equator'', g_familyId = Some ''fam'',
         g_center = Some \<lparr>c_latitude = JNum 0, c_longitude = JNum 90\<rparr>, g_radius = JNum 100\<rparr>"
    using t by simp
  show ?thesis
    using t l f by blast
qed

section \<open>The cooldown gate of the server\<close>

lemma sort_key_Nil_iff: "(sort_key f xs = []) = (xs = [])"
  by (metis length_sort length_0_conv)

lemma hd_sort_key_least:
  assumes "xs \<noteq> []" and "x \<in> set xs"
  shows "f (hd (sort_key f xs)) \<le> f x"
proof -
  have s: "sorted (map f (sort_key f xs))" by simp
  have ne: "sort_key f xs \<noteq> []" using assms(1) by (simp add: sort_key_Nil_iff)
  then obtain y ys where ys: "sort_key f xs = y # ys" by (cases "sort_key f xs") auto
  have "x \<in> set (y # ys)" using assms(2) ys by (metis set_sort)
  then show ?thesis using s ys by auto
qed

lemma latest_timestamp:
  assumes "ns \<noteq> []"
  shows "\<exists>d ds. latest ns = [d] \<and> n_timestamp d = Max (n_timestamp ` set ns)"
proof -
  let ?s = "sort_key (\<lambda>n. - n_timestamp n) ns"
  have ne: "?s \<noteq> []" using assms by (simp add: sort_key_Nil_iff)
  then obtain d ds where s: "?s = d # ds" by (cases ?s) auto
  have l: "latest ns = [d]" by (simp add: latest_def s)
  have dmem: "d \<in> set ns" using s by (metis list.set_intros(1) set_sort)
  have "\<forall>x\<in>set ns. n_timestamp x \<le> n_timestamp d"
  proof
    fix x assume "x \<in> set ns"
    from hd_sort_key_least [OF assms this, of "\<lambda>n. - n_timestamp n"] s
    show "n_timestamp x \<le> n_timestamp d" by simp
  qed
  then have "Max (n_timestamp ` set ns) = n_timestamp d"
    using dmem by (intro Max_eqI) auto
  with l show ?thesis by auto
qed

lemma cooldownActive_latest:
  "cooldownActive now window (latest ns) = (ns \<noteq> [] \<and> now < Max (n_timestamp ` set ns) + window)"
proof (cases "ns = []")
  case True
  then show ?thesis by (simp add: latest_def cooldownActive_def)
next
  case False
  from latest_timestamp [OF False] obtain d where "latest ns = [d]" "n_timestamp d = Max (n_timestamp ` set ns)"
    by auto
  with False show ?thesis by (simp add: cooldownActive_def)
qed

lemma sendAndStoreNotification_frame:
  "sendAndStoreNotification push now r core (db\<lparr>notifications := ns\<rparr>) =
   (sendAndStoreNotification push now r core (db\<lparr>notifications := []\<rparr>))
     \<lparr>notifications := ns @ notifications (sendAndStoreNotification push now r core (db\<lparr>notifications := []\<rparr>))\<rparr>"
  by (simp add: sendAndStoreNotification_def Let_def split: option.splits push_result.splits)

lemma fold_send_frame:
  "fold (\<lambda>m. sendAndStoreNotification push now m core) rs (db\<lparr>notifications := ns\<rparr>) =
   (fold (\<lambda>m. sendAndStoreNotification push now m core) rs (db\<lparr>notifications := []\<rparr>))
     \<lparr>notifications := ns @ notifications (fold (\<lambda>m. sendAndStoreNotification push now m core) rs (db\<lparr>notifications := []\<rparr>))\<rparr>"
proof (induction rs arbitrary: db ns)
  case Nil
  show ?case by simp
next
  case (Cons r rs)
  let ?f = "\<lambda>m. sendAndStoreNotification push now m core"
  let ?d1 = "?f r (db\<lparr>notifications := []\<rparr>)"
  have a: "?f r (db\<lparr>notifications := ns\<rparr>) = ?d1\<lparr>notifications := ns @ notifications ?d1\<rparr>"
    by (rule sendAndStoreNotification_frame)
  have b: "?d1 = ?d1\<lparr>notifications := notifications ?d1\<rparr>" by simp
  have l: "fold ?f rs (?d1\<lparr>notifications := ns @ notifications ?d1\<rparr>) =
        (fold ?f rs (?d1\<lparr>notifications := []\<rparr>))
          \<lparr>notifications := (ns @ notifications ?d1) @ notifications (fold ?f rs (?d1\<lparr>notifications := []\<rparr>))\<rparr>"
    by (rule Cons.IH)
  have r0: "fold ?f rs (?d1\<lparr>notifications := notifications ?d1\<rparr>) =
        (fold ?f rs (?d1\<lparr>notifications := []\<rparr>))
          \<lparr>notifications := notifications ?d1 @ notifications (fold ?f rs (?d1\<lparr>notifications := []\<rparr>))\<rparr>"
    by (rule Cons.IH)
  have r: "fold ?f rs ?d1 =
        (fold ?f rs (?d1\<lparr>notifications := []\<rparr>))
          \<lparr>notifications := notifications ?d1 @ notifications (fold ?f rs (?d1\<lparr>notifications := []\<rparr>))\<rparr>"
    using r0 by simp
  have "fold ?f (r # rs) (db\<lparr>notifications := ns\<rparr>) = fold ?f rs (?d1\<lparr>notifications := ns @ notifications ?d1\<rparr>)"
    using a by simp
  also have "\<dots> = (fold ?f rs (?d1\<lparr>notifications := []\<rparr>))
          \<lparr>notifications := ns @ (notifications ?d1 @ notifications (fold ?f rs (?d1\<lparr>notifications := []\<rparr>)))\<rparr>"
    using l by simp
  also have "\<dots> = (fold ?f rs ?d1)\<lparr>notifications := ns @ notifications (fold ?f rs ?d1)\<rparr>"
    by (simp add: r)
  finally show ?case by simp
qed

lemma familyOf_frame: "familyOf u (db\<lparr>notifications := ns\<rparr>) = familyOf u db"
  by (simp add: familyOf_def)

lemma membersOf_frame: "membersOf f (db\<lparr>notifications := ns\<rparr>) = membersOf f db"
  by (simp add: membersOf_def)

lemma notifyOthers_frame:
  "notifyOthers push now userId members core (db\<lparr>notifications := ns\<rparr>) =
   (notifyOthers push now userId members core (db\<lparr>notifications := []\<rparr>))
     \<lparr>notifications := ns @ notifications (notifyOthers push now userId members core (db\<lparr>notifications := []\<rparr>))\<rparr>"
  unfolding notifyOthers_def by (rule fold_send_frame)

lemma onSosActivated_frame:
  "onSosActivated push now userId after location (db\<lparr>notifications := ns\<rparr>) =
   (onSosActivated push now userId after location (db\<lparr>notifications := []\<rparr>))
     \<lparr>notifications := ns @ notifications (onSosActivated push now userId after location (db\<lparr>notifications := []\<rparr>))\<rparr>"
proof (cases "after = JBool True")
  case False
  then show ?thesis by (simp add: onSosActivated_def)
next
  case True
  show ?thesis
  proof (cases "familyOf userId db")
    case None
    with True show ?thesis by (simp add: onSosActivated_def familyOf_frame)
  next
    case (Some familyId)
    with True show ?thesis
      using notifyOthers_frame [where push = push and now = now and userId = userId
          and members = "membersOf familyId db" and db = db and ns = ns]
      by (simp add: onSosActivated_def familyOf_frame membersOf_frame)
  qed
qed

lemma checkGeofences_fence_allowed:
  assumes "\<not> fenceInvalid fence" and "g_center fence = Some c"
    and "checkGeofences_eventType
            (the_number (l_latitude old)) (the_number (l_longitude old))
            (the_number (l_latitude new)) (the_number (l_longitude new))
            (the_number (c_latitude c)) (the_number (c_longitude c))
            (the_number (g_radius fence)) = Some e"
  shows "fst (snd (checkGeofences_fence push now userId familyId members old new (fenceId, fence) (detected, allowed, db))) =
         allowed @ (if cooldownActive now COOLDOWN_geofence (cooldownQuery userId fenceId e db) then [] else [(fenceId, e)])"
  using assms by (simp add: checkGeofences_fence_def)

lemma checkLowBattery_blocked:
  "cooldownActive now COOLDOWN_lowBattery (recentNotifQuery userId db) \<Longrightarrow>
   snd (checkLowBattery push now userId previous level db) = db"
  by (simp add: checkLowBattery_def)

lemma filter_append_none: "\<forall>n\<in>set others. \<not> P n \<Longrightarrow> filter P (ns @ others) = filter P ns"
  by (induction others) auto

lemma eventType_pole_entry: "checkGeofences_eventType (-90) 90 90 90 90 90 100 = Some geofence_entry"
  using pole_is_far
  by (simp add: checkGeofences_eventType_def Let_def distance_pole_to_pole functions_getDistance_self)

section \<open>The records a run adds to the log\<close>

lemma extends_refl: "extends P db db"
  by (simp add: extends_def)

lemma extends_trans: "extends P a b \<Longrightarrow> extends P b c \<Longrightarrow> extends P a c"
  by (auto simp: extends_def)

lemma extends_sendAndStoreNotification:
  "extends (\<lambda>n. n = stored core r now) db (sendAndStoreNotification push now r core db)"
  by (simp add: sendAndStoreNotification_def extends_def Let_def split: option.splits push_result.splits)

lemma extends_mono: "extends P a b \<Longrightarrow> (\<And>n. P n \<Longrightarrow> Q n) \<Longrightarrow> extends Q a b"
  by (auto simp: extends_def list_all_iff)

lemma extends_notifyOthers:
  "extends (\<lambda>n. \<exists>r. r \<noteq> userId \<and> n = stored core r now) db (notifyOthers push now userId members core db)"
  unfolding notifyOthers_def
proof (induction members arbitrary: db)
  case Nil
  show ?case by (simp add: extends_refl)
next
  case (Cons m ms)
  show ?case
  proof (cases "m = userId")
    case True
    then show ?thesis using Cons.IH by simp
  next
    case False
    have "extends (\<lambda>n. \<exists>r. r \<noteq> userId \<and> n = stored core r now) db (sendAndStoreNotification push now m core db)"
      by (rule extends_mono [OF extends_sendAndStoreNotification]) (use False in auto)
    then show ?thesis using Cons.IH False extends_trans by fastforce
  qed
qed

lemma extends_notifyOthers_fromTo:
  "k_triggeringUid core = Some userId \<Longrightarrow>
   extends (fromTo userId) db (notifyOthers push now userId members core db)"
  by (rule extends_mono [OF extends_notifyOthers]) (auto simp: fromTo_def stored_def)

lemma extends_checkLowBattery:
  "extends (fromTo userId) db (snd (checkLowBattery push now userId previous level db))"
  by (auto simp: checkLowBattery_def extends_refl split: option.splits intro!: extends_notifyOthers_fromTo)

lemma extends_onSosActivated:
  "extends (fromTo userId) db (onSosActivated push now userId after location db)"
  by (auto simp: onSosActivated_def extends_refl split: option.splits intro!: extends_notifyOthers_fromTo)

lemma extends_checkGeofences_fence:
  "extends (fromTo userId) (snd (snd acc))
     (snd (snd (checkGeofences_fence push now userId familyId members old new fenceDoc acc)))"
  by (cases acc; cases fenceDoc)
     (auto simp: checkGeofences_fence_def extends_refl split: option.splits intro!: extends_notifyOthers_fromTo)

lemma extends_fold_third:
  assumes "\<And>x s. extends P (snd (snd s)) (snd (snd (f x s)))"
  shows "extends P (snd (snd s)) (snd (snd (fold f xs s)))"
proof (induction xs arbitrary: s)
  case Nil
  show ?case by (simp add: extends_refl)
next
  case (Cons x xs)
  have "extends P (snd (snd s)) (snd (snd (f x s)))" by (rule assms)
  moreover have "extends P (snd (snd (f x s))) (snd (snd (fold f xs (f x s))))" by (rule Cons.IH)
  ultimately show ?case using extends_trans by fastforce
qed

lemma extends_checkGeofences:
  "extends (fromTo userId) db (snd (snd (checkGeofences push now userId oldLocation newLocation db)))"
proof -
  have f: "\<And>familyId members old new fs.
      extends (fromTo userId) db
        (snd (snd (fold (checkGeofences_fence push now userId familyId members old new) fs ([], [], db))))"
    using extends_fold_third [of "fromTo userId" "checkGeofences_fence push now userId _ _ _ _" "([], [], db)",
        OF extends_checkGeofences_fence]
    by simp
  show ?thesis
    by (auto simp: checkGeofences_def Let_def extends_refl f split: option.splits)
qed

lemma extends_createNotificationsForFamily:
  "k_triggeringUid payload = Some senderUid \<Longrightarrow>
   extends (fromTo senderUid) db (snd (createNotificationsForFamily now senderUid payload db))"
  by (auto simp: createNotificationsForFamily_def getOtherFamilyMemberUids_def Let_def extends_def
      list_all_iff fromTo_def notificationData_def)

lemma extends_batteryListener:
  "extends (fromTo uid) db (snd (snd (batteryListener now uid profile level (refs, db))))"
  by (auto simp: batteryListener_def Let_def extends_refl split: option.splits
      intro!: extends_createNotificationsForFamily)

lemma extends_handleSosPress:
  "extends (fromTo uid) db (handleSosPress now (Some uid) currentUserProfile locationData db)"
  by (auto simp: handleSosPress_def extends_refl split: option.splits
      intro!: extends_createNotificationsForFamily)

lemma extends_checkCurrentUserGeofences_fence:
  "extends (fromTo uid) (snd (snd (snd acc)))
     (snd (snd (snd (checkCurrentUserGeofences_fence now uid familyId previousLoc currentLoc fence acc))))"
  by (cases acc)
     (auto simp: checkCurrentUserGeofences_fence_def extends_refl split: option.splits
      intro!: extends_createNotificationsForFamily)

lemma extends_fold_fourth:
  assumes "\<And>x s. extends P (snd (snd (snd s))) (snd (snd (snd (f x s))))"
  shows "extends P (snd (snd (snd s))) (snd (snd (snd (fold f xs s))))"
proof (induction xs arbitrary: s)
  case Nil
  show ?case by (simp add: extends_refl)
next
  case (Cons x xs)
  have "extends P (snd (snd (snd s))) (snd (snd (snd (f x s))))" by (rule assms)
  moreover have "extends P (snd (snd (snd (f x s)))) (snd (snd (snd (fold f xs (f x s)))))" by (rule Cons.IH)
  ultimately show ?case using extends_trans by fastforce
qed

lemma extends_checkCurrentUserGeofences:
  "extends (fromTo uid) db
     (snd (snd (snd (checkCurrentUserGeofences now (Some uid) currentUserProfile fences newLocation (refs, db)))))"
proof -
  have f: "\<And>familyId previousLoc currentLoc.
      extends (fromTo uid) db
        (snd (snd (snd (fold (checkCurrentUserGeofences_fence now uid familyId previousLoc currentLoc) fences
                          ([], [], refs, db)))))"
    using extends_fold_fourth [of "fromTo uid" "checkCurrentUserGeofences_fence now uid _ _ _" "([], [], refs, db)",
        OF extends_checkCurrentUserGeofences_fence]
    by simp
  show ?thesis
    by (auto simp: checkCurrentUserGeofences_def extends_refl f split: option.splits)
qed

text \<open>
  C7. Every record that a dispatch adds to the log names the triggering subject and goes to
  another uid: the log after a run is the log before it followed by records with
  \<open>triggeringUid = userId\<close> and \<open>recipientUid \<noteq> userId\<close>. This holds for the three server
  triggers and for the three client paths (battery listener, geofence check, SOS button).
\<close>

theorem no_notification_to_self:
  "extends (fromTo userId) db (snd (checkLowBattery push now userId previous level db))
   \<and> extends (fromTo userId) db (onSosActivated push now userId after location db)
   \<and> extends (fromTo userId) db (snd (snd (checkGeofences push now userId oldLocation newLocation db)))
   \<and> extends (fromTo userId) db (snd (snd (batteryListener now userId profile fraction (refs, db))))
   \<and> extends (fromTo userId) db
        (snd (snd (snd (checkCurrentUserGeofences now (Some userId) profile fences currentLocation (refs, db)))))
   \<and> extends (fromTo userId) db (handleSosPress now (Some userId) profile locationData db)"
  using extends_checkLowBattery [of userId db push now previous level]
    extends_onSosActivated [of userId db push now after location]
    extends_checkGeofences [of userId db push now oldLocation newLocation]
    extends_batteryListener [of userId db now profile fraction refs]
    extends_checkCurrentUserGeofences [of userId db now profile fences currentLocation refs]
    extends_handleSosPress [of userId db now profile locationData]
  by simp

theorem no_notification_to_self_witness:
  "extends (fromTo ''alice'') db0 (onSosActivated (\<lambda>t. Resolved) 1000 ''alice'' (JBool True) None db0)
   \<and> map n_recipientUid (notifications (onSosActivated (\<lambda>t. Resolved) 1000 ''alice'' (JBool True) None db0)) = [''bob'']
   \<and> extends (fromTo ''alice'') db0 (handleSosPress 1000 (Some ''alice'') (Some profile0) None db0)
   \<and> map n_recipientUid (notifications (handleSosPress 1000 (Some ''alice'') (Some profile0) None db0)) = [''bob'']"
proof -
  note t = no_notification_to_self [where userId = "''alice''" and db = db0 and push = "\<lambda>t. Resolved"
      and now = 1000 and after = "JBool True" and location = None and profile = "Some profile0"
      and locationData = None]
  have s: "map n_recipientUid (notifications (onSosActivated (\<lambda>t. Resolved) 1000 ''alice'' (JBool True) None db0)) = [''bob'']"
    by (simp add: onSosActivated_def familyOf_def membersOf_def notifyOthers_def
        sendAndStoreNotification_def db0_def stored_def)
  have c: "map n_recipientUid (notifications (handleSosPress 1000 (Some ''alice'') (Some profile0) None db0)) = [''bob'']"
    by (simp add: handleSosPress_def familyIdOf_def profile0_def createNotificationsForFamily_def
        getOtherFamilyMemberUids_def membersOf_def db0_def notificationData_def)
  from t s c show ?thesis by simp
qed

section \<open>What the dispatchers record\<close>

lemma map_of_clearToken:
  "map_of (clearToken r us) r = (case map_of us r of None \<Rightarrow> None | Some u \<Rightarrow> Some (u\<lparr>u_fcmToken := None\<rparr>))"
  by (induction us) (auto simp: clearToken_def)

lemma pushToken_cleared: "pushToken r (db\<lparr>users := clearToken r (users db)\<rparr>) = None"
  by (simp add: pushToken_def map_of_clearToken split: option.splits)

lemma sendAndStoreNotification_no_token:
  "pushToken r db = None \<Longrightarrow> sendAndStoreNotification push now r core db = db"
  by (auto simp: pushToken_def sendAndStoreNotification_def Let_def split: option.splits if_splits)

lemma sendAndStoreNotification_resolved:
  "pushToken r db = Some t \<Longrightarrow> push t = Resolved \<Longrightarrow>
   sendAndStoreNotification push now r core db =
     db\<lparr>delivered := delivered db @ [t], notifications := notifications db @ [stored core r now]\<rparr>"
  by (auto simp: pushToken_def sendAndStoreNotification_def Let_def split: option.splits if_splits)

lemma sendAndStoreNotification_threw:
  "pushToken r db = Some t \<Longrightarrow> push t = Threw code \<Longrightarrow>
   sendAndStoreNotification push now r core db =
     (if code = registration_token_not_registered \<or> code = invalid_registration_token
      then db\<lparr>users := clearToken r (users db)\<rparr> else db)"
  by (auto simp: pushToken_def sendAndStoreNotification_def Let_def split: option.splits if_splits)

lemma createNotificationsForFamily_records:
  "k_familyId payload \<noteq> [] \<Longrightarrow>
   snd (createNotificationsForFamily now senderUid payload db) =
     db\<lparr>notifications := notifications db @
          map (notificationData payload now) (getOtherFamilyMemberUids (k_familyId payload) senderUid db)\<rparr>"
  by (simp add: createNotificationsForFamily_def Let_def)

text \<open>
  C3, as the code has it. On the server a recipient gets a record only after a push that
  succeeded: with no token nothing is sent and nothing is recorded; with a token and a
  successful send, exactly one record is appended; when the send fails nothing is
  recorded, and the token is cleared if the failure is of the invalid-token kind (after
  which the recipient has no token). On the client nothing is pushed and exactly one record
  per other family member is appended.
\<close>

theorem notification_recorded_after_delivery:
  "(pushToken r db = None \<longrightarrow> sendAndStoreNotification push now r core db = db)
   \<and> (pushToken r db = Some t \<longrightarrow> push t = Resolved \<longrightarrow>
        sendAndStoreNotification push now r core db =
          db\<lparr>delivered := delivered db @ [t], notifications := notifications db @ [stored core r now]\<rparr>)
   \<and> (pushToken r db = Some t \<longrightarrow> push t = Threw code \<longrightarrow>
        sendAndStoreNotification push now r core db =
          (if code = registration_token_not_registered \<or> code = invalid_registration_token
           then db\<lparr>users := clearToken r (users db)\<rparr> else db))
   \<and> pushToken r (db\<lparr>users := clearToken r (users db)\<rparr>) = None
   \<and> (k_familyId payload \<noteq> [] \<longrightarrow>
        snd (createNotificationsForFamily now senderUid payload db) =
          db\<lparr>notifications := notifications db @
               map (notificationData payload now) (getOtherFamilyMemberUids (k_familyId payload) senderUid db)\<rparr>)"
  using sendAndStoreNotification_no_token [of r db push now core]
    sendAndStoreNotification_resolved [of r db t push now core]
    sendAndStoreNotification_threw [of r db t push code now core]
    pushToken_cleared [of r db]
    createNotificationsForFamily_records [of payload now senderUid db]
  by blast

lemma pushToken_db2:
  "pushToken ''bob'' db2 = None" "pushToken ''carol'' db2 = Some ''tokC''" "pushToken ''dave'' db2 = Some ''tokD''"
  by (simp_all add: pushToken_def db2_def)

theorem notification_recorded_after_delivery_witness:
  "sendAndStoreNotification push2 1000 ''bob'' core0 db2 = db2
   \<and> sendAndStoreNotification push2 1000 ''dave'' core0 db2 =
        db2\<lparr>delivered := delivered db2 @ [''tokD''], notifications := notifications db2 @ [stored core0 ''dave'' 1000]\<rparr>
   \<and> sendAndStoreNotification push2 1000 ''carol'' core0 db2 = db2\<lparr>users := clearToken ''carol'' (users db2)\<rparr>
   \<and> map n_recipientUid (notifications (snd (createNotificationsForFamily 1000 ''alice'' core0 db2))) =
        [''bob'', ''carol'', ''dave'']"
proof -
  note t = notification_recorded_after_delivery [where db = db2 and push = push2 and now = 1000
      and core = core0 and payload = core0 and senderUid = "''alice''"]
  have b: "sendAndStoreNotification push2 1000 ''bob'' core0 db2 = db2"
    using t [where r = "''bob''"] pushToken_db2 by simp
  have d: "sendAndStoreNotification push2 1000 ''dave'' core0 db2 =
        db2\<lparr>delivered := delivered db2 @ [''tokD''], notifications := notifications db2 @ [stored core0 ''dave'' 1000]\<rparr>"
    using t [where r = "''dave''" and t = "''tokD''"] pushToken_db2 by (simp add: push2_def)
  have c: "sendAndStoreNotification push2 1000 ''carol'' core0 db2 = db2\<lparr>users := clearToken ''carol'' (users db2)\<rparr>"
    using t [where r = "''carol''" and t = "''tokC''" and code = registration_token_not_registered] pushToken_db2
    by (simp add: push2_def)
  have f: "k_familyId core0 \<noteq> []" by (simp add: core0_def)
  have m: "getOtherFamilyMemberUids (k_familyId core0) ''alice'' db2 = [''bob'', ''carol'', ''dave'']"
    by (simp add: getOtherFamilyMemberUids_def membersOf_def core0_def db2_def)
  have n: "notifications db2 = []" by (simp add: db2_def)
  have k: "map n_recipientUid (notifications (snd (createNotificationsForFamily 1000 ''alice'' core0 db2))) =
        [''bob'', ''carol'', ''dave'']"
    using t [where r = "''bob''"] f by (simp add: m n notificationData_def)
  from b d c k show ?thesis by simp
qed

text \<open>
  The claim as stated fails on the server: Bob has no token and Carol's token is rejected
  as not registered, and neither gets a record; of Alice's three recipients only Dave,
  whose push succeeds, is recorded.
\<close>

theorem notification_recorded_regardless_counterexample:
  "createdBy db2 (sendAndStoreNotification push2 1000 ''bob'' core0 db2) = []
   \<and> createdBy db2 (sendAndStoreNotification push2 1000 ''carol'' core0 db2) = []
   \<and> pushToken ''carol'' (sendAndStoreNotification push2 1000 ''carol'' core0 db2) = None
   \<and> map n_recipientUid (createdBy db2 (notifyOthers push2 1000 ''alice'' (membersOf ''fam'' db2) core0 db2)) = [''dave'']"
  by (simp add: createdBy_def sendAndStoreNotification_def notifyOthers_def membersOf_def pushToken_def
      clearToken_def push2_def db2_def core0_def stored_def)

section \<open>Where each runtime keeps its cooldown state\<close>

lemma cooldownActive_some_younger:
  "cooldownActive now window (latest ns) = (\<exists>n\<in>set ns. now < n_timestamp n + window)"
proof (cases "ns = []")
  case True
  then show ?thesis by (simp add: cooldownActive_latest)
next
  case False
  have fin: "finite (n_timestamp ` set ns)" and ne: "n_timestamp ` set ns \<noteq> {}"
    using False by auto
  have "(now < Max (n_timestamp ` set ns) + window) = (\<exists>t\<in>n_timestamp ` set ns. now - window < t)"
    using Max_gr_iff [OF fin ne, of "now - window"] by (simp add: algebra_simps)
  also have "\<dots> = (\<exists>n\<in>set ns. now < n_timestamp n + window)"
    by (auto simp: algebra_simps)
  finally show ?thesis using False by (simp add: cooldownActive_latest)
qed

lemma checkCurrentUserGeofences_fence_allowed:
  assumes "f_center_latitude fence \<noteq> 0" and "f_center_longitude fence \<noteq> 0" and "f_radius fence \<noteq> 0"
    and "checkCurrentUserGeofences_eventType
            (cl_latitude previousLoc) (cl_longitude previousLoc)
            (cl_latitude currentLoc) (cl_longitude currentLoc)
            (f_center_latitude fence) (f_center_longitude fence) (f_radius fence) = Some e"
  shows "fst (snd (checkCurrentUserGeofences_fence now uid familyId previousLoc currentLoc fence (detected, allowed, refs, db))) =
         allowed @ (if cooldownOver now GEOFENCE_COOLDOWN_PERIOD (geofenceCooldowns refs (f_id fence))
                    then [(f_id fence, e)] else [])"
    and "fst (snd (snd (checkCurrentUserGeofences_fence now uid familyId previousLoc currentLoc fence (detected, allowed, refs, db)))) =
         (if cooldownOver now GEOFENCE_COOLDOWN_PERIOD (geofenceCooldowns refs (f_id fence))
          then refs\<lparr>geofenceCooldowns := (geofenceCooldowns refs)(f_id fence \<mapsto> now)\<rparr> else refs)"
  using assms by (simp_all add: checkCurrentUserGeofences_fence_def)

lemma batteryListener_sent:
  "fst (batteryListener now uid profile level (refs, db)) =
     (case profile of
        None \<Rightarrow> False
      | Some p \<Rightarrow> round (level * 100) \<le> 20 \<and> str_truthy (p_familyId p) \<and> p_batteryAlerts p \<noteq> Some False \<and>
                  cooldownOver now BATTERY_COOLDOWN_PERIOD (lastLowBatteryAlertSent refs))"
  by (cases "p_familyId (the profile)"; cases "p_batteryAlerts (the profile)")
     (auto simp: batteryListener_def Let_def familyIdOf_def client_LOW_BATTERY_THRESHOLD_def
       split: option.splits)

lemma batteryListener_refs:
  "lastLowBatteryAlertSent (fst (snd (batteryListener now uid profile level (refs, db)))) =
     (if fst (batteryListener now uid profile level (refs, db)) then Some now
      else if round (level * 100) > 20 then None
      else lastLowBatteryAlertSent refs)"
  by (cases "p_familyId (the profile)"; cases "p_batteryAlerts (the profile)")
     (auto simp: batteryListener_def Let_def familyIdOf_def client_LOW_BATTERY_THRESHOLD_def
       split: option.splits)

lemma checkCurrentUserGeofences_fence_ignores_log:
  "fst (snd (checkCurrentUserGeofences_fence now uid familyId previousLoc currentLoc fence (detected, allowed, refs, db))) =
   fst (snd (checkCurrentUserGeofences_fence now uid familyId previousLoc currentLoc fence (detected, allowed, refs, db')))"
  by (simp add: checkCurrentUserGeofences_fence_def split: option.splits)

lemma batteryListener_ignores_log:
  "fst (batteryListener now uid profile level (refs, db)) = fst (batteryListener now uid profile level (refs, db'))"
  by (simp add: batteryListener_sent)

lemma geofence_gate_mirror:
  assumes "matching = filter (\<lambda>n. n_triggeringUid n = Some userId \<and> n_relatedGeofenceId n = Some fenceId \<and>
                                   n_type n = eventType) (notifications db)"
  shows "matching = [] \<Longrightarrow>
           cooldownOver now GEOFENCE_COOLDOWN_PERIOD None =
           (\<not> cooldownActive now COOLDOWN_geofence (cooldownQuery userId fenceId eventType db))"
    and "matching \<noteq> [] \<Longrightarrow> Max (n_timestamp ` set matching) = t \<Longrightarrow> t \<noteq> 0 \<Longrightarrow> now - t \<noteq> 5 * 60 * 1000 \<Longrightarrow>
           cooldownOver now GEOFENCE_COOLDOWN_PERIOD (Some t) =
           (\<not> cooldownActive now COOLDOWN_geofence (cooldownQuery userId fenceId eventType db))"
  using assms
  by (auto simp: cooldownQuery_def cooldownActive_latest cooldownOver_def
      GEOFENCE_COOLDOWN_PERIOD_def COOLDOWN_geofence_def)

lemma battery_gate_mirror:
  assumes "matching = filter (\<lambda>n. n_triggeringUid n = Some userId \<and> n_type n = low_battery) (notifications db)"
  shows "matching = [] \<Longrightarrow>
           cooldownOver now BATTERY_COOLDOWN_PERIOD None =
           (\<not> cooldownActive now COOLDOWN_lowBattery (recentNotifQuery userId db))"
    and "matching \<noteq> [] \<Longrightarrow> Max (n_timestamp ` set matching) = t \<Longrightarrow> t \<noteq> 0 \<Longrightarrow> now - t \<noteq> 15 * 60 * 1000 \<Longrightarrow>
           cooldownOver now BATTERY_COOLDOWN_PERIOD (Some t) =
           (\<not> cooldownActive now COOLDOWN_lowBattery (recentNotifQuery userId db))"
  using assms
  by (auto simp: recentNotifQuery_def cooldownActive_latest cooldownOver_def
      BATTERY_COOLDOWN_PERIOD_def COOLDOWN_lowBattery_def)

text \<open>
  C2, as the code has it. The server reads the cooldown state from the log: a geofence
  candidate is blocked exactly when the log holds a record of the same subject, fence and
  kind younger than 5 minutes, a low-battery candidate exactly when it holds a low-battery
  record of the subject younger than 15 minutes. The client reads its own memory and not
  the log: a geofence event of a valid fence is allowed exactly when the time kept for the
  fence id in \<open>geofenceCooldowns\<close> is unset, 0, or more than 5 minutes old, a low battery is
  notified exactly when the reading is at most 20, the profile has a family and does not
  disable battery alerts, and \<open>lastLowBatteryAlertSent\<close> is unset, 0, or more than 15 minutes
  old; neither decision changes with the log. The two gates give the same answer when the
  time the client keeps is the timestamp of the latest matching record of the log (or both
  are absent), that time is not 0, and its age is not exactly the window.
\<close>

theorem cooldown_state_server_log_client_memory:
  "cooldownActive now COOLDOWN_geofence (cooldownQuery userId fenceId eventType db) =
     (\<exists>n\<in>set (notifications db). n_triggeringUid n = Some userId \<and> n_relatedGeofenceId n = Some fenceId \<and>
                                      n_type n = eventType \<and> now < n_timestamp n + 5 * 60 * 1000)
   \<and> cooldownActive now COOLDOWN_lowBattery (recentNotifQuery userId db) =
     (\<exists>n\<in>set (notifications db). n_triggeringUid n = Some userId \<and> n_type n = low_battery \<and>
                                      now < n_timestamp n + 15 * 60 * 1000)
   \<and> (f_center_latitude cfence \<noteq> 0 \<longrightarrow> f_center_longitude cfence \<noteq> 0 \<longrightarrow> f_radius cfence \<noteq> 0 \<longrightarrow>
        checkCurrentUserGeofences_eventType
            (cl_latitude previousLoc) (cl_longitude previousLoc)
            (cl_latitude currentLoc) (cl_longitude currentLoc)
            (f_center_latitude cfence) (f_center_longitude cfence) (f_radius cfence) = Some eventType \<longrightarrow>
        fst (snd (checkCurrentUserGeofences_fence now userId familyId previousLoc currentLoc cfence (detected, allowed, refs, db))) =
        allowed @ (if cooldownOver now GEOFENCE_COOLDOWN_PERIOD (geofenceCooldowns refs (f_id cfence))
                   then [(f_id cfence, eventType)] else []))
   \<and> fst (snd (checkCurrentUserGeofences_fence now userId familyId previousLoc currentLoc cfence (detected, allowed, refs, db))) =
       fst (snd (checkCurrentUserGeofences_fence now userId familyId previousLoc currentLoc cfence (detected, allowed, refs, db')))
   \<and> fst (batteryListener now userId profile level (refs, db)) =
       (case profile of
          None \<Rightarrow> False
        | Some p \<Rightarrow> round (level * 100) \<le> 20 \<and> str_truthy (p_familyId p) \<and> p_batteryAlerts p \<noteq> Some False \<and>
                    cooldownOver now BATTERY_COOLDOWN_PERIOD (lastLowBatteryAlertSent refs))
   \<and> fst (batteryListener now userId profile level (refs, db)) = fst (batteryListener now userId profile level (refs, db'))
   \<and> cooldownOver now period lastAlertTime = (case lastAlertTime of None \<Rightarrow> True | Some t \<Rightarrow> t = 0 \<or> now - t > period)
   \<and> (filter (\<lambda>n. n_triggeringUid n = Some userId \<and> n_relatedGeofenceId n = Some fenceId \<and>
                     n_type n = eventType) (notifications db) = [] \<longrightarrow>
        cooldownOver now GEOFENCE_COOLDOWN_PERIOD None =
        (\<not> cooldownActive now COOLDOWN_geofence (cooldownQuery userId fenceId eventType db)))
   \<and> (filter (\<lambda>n. n_triggeringUid n = Some userId \<and> n_relatedGeofenceId n = Some fenceId \<and>
                     n_type n = eventType) (notifications db) \<noteq> [] \<longrightarrow>
        Max (n_timestamp ` set (filter (\<lambda>n. n_triggeringUid n = Some userId \<and> n_relatedGeofenceId n = Some fenceId \<and>
                     n_type n = eventType) (notifications db))) = t \<longrightarrow>
        t \<noteq> 0 \<longrightarrow> now - t \<noteq> 5 * 60 * 1000 \<longrightarrow>
        cooldownOver now GEOFENCE_COOLDOWN_PERIOD (Some t) =
        (\<not> cooldownActive now COOLDOWN_geofence (cooldownQuery userId fenceId eventType db)))
   \<and> (filter (\<lambda>n. n_triggeringUid n = Some userId \<and> n_type n = low_battery) (notifications db) = [] \<longrightarrow>
        cooldownOver now BATTERY_COOLDOWN_PERIOD None =
        (\<not> cooldownActive now COOLDOWN_lowBattery (recentNotifQuery userId db)))
   \<and> (filter (\<lambda>n. n_triggeringUid n = Some userId \<and> n_type n = low_battery) (notifications db) \<noteq> [] \<longrightarrow>
        Max (n_timestamp ` set (filter (\<lambda>n. n_triggeringUid n = Some userId \<and> n_type n = low_battery)
                                  (notifications db))) = t \<longrightarrow>
        t \<noteq> 0 \<longrightarrow> now - t \<noteq> 15 * 60 * 1000 \<longrightarrow>
        cooldownOver now BATTERY_COOLDOWN_PERIOD (Some t) =
        (\<not> cooldownActive now COOLDOWN_lowBattery (recentNotifQuery userId db)))"
proof -
  have g: "cooldownActive now COOLDOWN_geofence (cooldownQuery userId fenceId eventType db) =
     (\<exists>n\<in>set (notifications db). n_triggeringUid n = Some userId \<and> n_relatedGeofenceId n = Some fenceId \<and>
                                      n_type n = eventType \<and> now < n_timestamp n + 5 * 60 * 1000)"
    unfolding cooldownQuery_def cooldownActive_some_younger COOLDOWN_geofence_def by auto
  have b: "cooldownActive now COOLDOWN_lowBattery (recentNotifQuery userId db) =
     (\<exists>n\<in>set (notifications db). n_triggeringUid n = Some userId \<and> n_type n = low_battery \<and>
                                      now < n_timestamp n + 15 * 60 * 1000)"
    unfolding recentNotifQuery_def cooldownActive_some_younger COOLDOWN_lowBattery_def by auto
  have o: "cooldownOver now period lastAlertTime = (case lastAlertTime of None \<Rightarrow> True | Some t \<Rightarrow> t = 0 \<or> now - t > period)"
    by (simp add: cooldownOver_def)
  show ?thesis
    using g b o
      checkCurrentUserGeofences_fence_allowed(1) [where fence = cfence and previousLoc = previousLoc
        and currentLoc = currentLoc and e = eventType and now = now and uid = userId and familyId = familyId
        and detected = detected and allowed = allowed and refs = refs and db = db]
      checkCurrentUserGeofences_fence_ignores_log [where now = now and uid = userId and familyId = familyId
        and previousLoc = previousLoc and currentLoc = currentLoc and fence = cfence and detected = detected
        and allowed = allowed and refs = refs and db = db and db' = db']
      batteryListener_sent [where now = now and uid = userId and profile = profile and level = level
        and refs = refs and db = db]
      batteryListener_ignores_log [where now = now and uid = userId and profile = profile and level = level
        and refs = refs and db = db and db' = db']
      geofence_gate_mirror(1) [OF refl, where userId = userId and fenceId = fenceId and eventType = eventType
        and db = db and now = now]
      geofence_gate_mirror(2) [OF refl, where userId = userId and fenceId = fenceId and eventType = eventType
        and db = db and now = now and t = t]
      battery_gate_mirror(1) [OF refl, where userId = userId and db = db and now = now]
      battery_gate_mirror(2) [OF refl, where userId = userId and db = db and now = now and t = t]
    by blast
qed

lemma eventType_pole_entry_client:
  "checkCurrentUserGeofences_eventType (-90) 90 90 90 90 90 100 = Some geofence_entry"
  using pole_is_far
  by (simp add: checkCurrentUserGeofences_eventType_def Let_def helpers_is_functions
      distance_pole_to_pole functions_getDistance_self)

lemma matching_db1:
  "filter (\<lambda>n. n_triggeringUid n = Some ''alice'' \<and> n_relatedGeofenceId n = Some ''home'' \<and>
                n_type n = geofence_entry) (notifications db1) = [note1]"
  by (simp add: db1_def note1_def)

lemma blocked_db1: "cooldownActive 1060000 COOLDOWN_geofence (cooldownQuery ''alice'' ''home'' geofence_entry db1)"
  by (simp add: cooldownQuery_def cooldownActive_latest matching_db1 COOLDOWN_geofence_def note1_def)

theorem cooldown_state_server_log_client_memory_witness:
  "cooldownActive 1060000 COOLDOWN_geofence (cooldownQuery ''alice'' ''home'' geofence_entry db1)
   \<and> \<not> cooldownOver 1060000 GEOFENCE_COOLDOWN_PERIOD (Some 1000000)
   \<and> fst (snd (checkCurrentUserGeofences_fence 1060000 ''alice'' ''fam''
            \<lparr>cl_latitude = -90, cl_longitude = 90\<rparr> \<lparr>cl_latitude = 90, cl_longitude = 90\<rparr> fence0
            ([], [], refs1, db1))) = []
   \<and> \<not> fst (batteryListener 1060000 ''alice'' (Some profile0) (15 / 100) (refs1, db1))"
proof -
  note t = cooldown_state_server_log_client_memory [where now = 1060000 and userId = "''alice''"
      and fenceId = "''home''" and eventType = geofence_entry and db = db1 and cfence = fence0
      and previousLoc = "\<lparr>cl_latitude = -90, cl_longitude = 90\<rparr>"
      and currentLoc = "\<lparr>cl_latitude = 90, cl_longitude = 90\<rparr>"
      and familyId = "''fam''" and detected = "[]" and allowed = "[]" and refs = refs1
      and profile = "Some profile0" and level = "15 / 100" and t = 1000000
      and period = GEOFENCE_COOLDOWN_PERIOD and lastAlertTime = "Some 1000000"]
  have a: "cooldownActive 1060000 COOLDOWN_geofence (cooldownQuery ''alice'' ''home'' geofence_entry db1)"
    using t by (simp add: db1_def note1_def)
  have o: "\<not> cooldownOver 1060000 GEOFENCE_COOLDOWN_PERIOD (Some 1000000)"
    using t by (simp add: GEOFENCE_COOLDOWN_PERIOD_def)
  have f: "f_center_latitude fence0 = 90" "f_center_longitude fence0 = 90" "f_radius fence0 = 100" "f_id fence0 = ''home''"
    by (simp_all add: fence0_def)
  have r: "geofenceCooldowns refs1 ''home'' = Some 1000000" "lastLowBatteryAlertSent refs1 = Some 1000000"
    by (simp_all add: refs1_def)
  have c: "fst (snd (checkCurrentUserGeofences_fence 1060000 ''alice'' ''fam''
            \<lparr>cl_latitude = -90, cl_longitude = 90\<rparr> \<lparr>cl_latitude = 90, cl_longitude = 90\<rparr> fence0
            ([], [], refs1, db1))) = []"
    using t o by (simp add: f r eventType_pole_entry_client)
  have b: "\<not> fst (batteryListener 1060000 ''alice'' (Some profile0) (15 / 100) (refs1, db1))"
    using t by (simp add: r cooldownOver_def BATTERY_COOLDOWN_PERIOD_def)
  from a o c b show ?thesis by simp
qed

text \<open>
  The claim as stated fails on the client. With the same log (one entry record of Alice at
  the fence, a minute old) and the same candidate, the server blocks and a client whose
  memory is fresh allows; and with that same log the client allows or blocks, for the
  fence and for a low battery, according to what its own refs hold.
\<close>

theorem same_cooldown_decision_counterexample:
  "fst (snd (checkGeofences_fence (\<lambda>t. Resolved) 1060000 ''alice'' ''fam'' [''alice'', ''bob'']
            \<lparr>l_latitude = JNum (-90), l_longitude = JNum 90\<rparr> \<lparr>l_latitude = JNum 90, l_longitude = JNum 90\<rparr>
            (''home'', gfence0) ([], [], db1))) = []
   \<and> fst (snd (checkCurrentUserGeofences_fence 1060000 ''alice'' ''fam''
            \<lparr>cl_latitude = -90, cl_longitude = 90\<rparr> \<lparr>cl_latitude = 90, cl_longitude = 90\<rparr> fence0
            ([], [], refs0, db1))) = [(''home'', geofence_entry)]
   \<and> fst (snd (checkCurrentUserGeofences_fence 1060000 ''alice'' ''fam''
            \<lparr>cl_latitude = -90, cl_longitude = 90\<rparr> \<lparr>cl_latitude = 90, cl_longitude = 90\<rparr> fence0
            ([], [], refs1, db1))) = []
   \<and> fst (batteryListener 1060000 ''alice'' (Some profile0) (15 / 100) (refs0, db1))
   \<and> \<not> fst (batteryListener 1060000 ''alice'' (Some profile0) (15 / 100) (refs1, db1))"
proof -
  have valid: "\<not> fenceInvalid gfence0"
    by (simp add: gfence0_def fenceInvalid_def fieldInvalid_def)
  have s: "fst (snd (checkGeofences_fence (\<lambda>t. Resolved) 1060000 ''alice'' ''fam'' [''alice'', ''bob'']
            \<lparr>l_latitude = JNum (-90), l_longitude = JNum 90\<rparr> \<lparr>l_latitude = JNum 90, l_longitude = JNum 90\<rparr>
            (''home'', gfence0) ([], [], db1))) = []"
    using checkGeofences_fence_allowed [where fence = gfence0 and c = "\<lparr>c_latitude = JNum 90, c_longitude = JNum 90\<rparr>"
        and old = "\<lparr>l_latitude = JNum (-90), l_longitude = JNum 90\<rparr>"
        and new = "\<lparr>l_latitude = JNum 90, l_longitude = JNum 90\<rparr>" and e = geofence_entry
        and now = 1060000 and userId = "''alice''" and fenceId = "''home''" and allowed = "[]" and db = db1,
        OF valid]
      blocked_db1 eventType_pole_entry
    by (simp add: gfence0_def)
  have f: "f_center_latitude fence0 = 90" "f_center_longitude fence0 = 90" "f_radius fence0 = 100" "f_id fence0 = ''home''"
    by (simp_all add: fence0_def)
  have c0: "fst (snd (checkCurrentUserGeofences_fence 1060000 ''alice'' ''fam''
            \<lparr>cl_latitude = -90, cl_longitude = 90\<rparr> \<lparr>cl_latitude = 90, cl_longitude = 90\<rparr> fence0
            ([], [], refs0, db1))) = [(''home'', geofence_entry)]"
    by (simp add: checkCurrentUserGeofences_fence_def f eventType_pole_entry_client cooldownOver_def refs0_def)
  have c1: "fst (snd (checkCurrentUserGeofences_fence 1060000 ''alice'' ''fam''
            \<lparr>cl_latitude = -90, cl_longitude = 90\<rparr> \<lparr>cl_latitude = 90, cl_longitude = 90\<rparr> fence0
            ([], [], refs1, db1))) = []"
    by (simp add: checkCurrentUserGeofences_fence_def f eventType_pole_entry_client cooldownOver_def refs1_def
        GEOFENCE_COOLDOWN_PERIOD_def)
  have b0: "fst (batteryListener 1060000 ''alice'' (Some profile0) (15 / 100) (refs0, db1))"
    by (simp add: batteryListener_sent profile0_def cooldownOver_def refs0_def)
  have b1: "\<not> fst (batteryListener 1060000 ''alice'' (Some profile0) (15 / 100) (refs1, db1))"
    by (simp add: batteryListener_sent profile0_def cooldownOver_def refs1_def BATTERY_COOLDOWN_PERIOD_def)
  from s c0 c1 b0 b1 show ?thesis by simp
qed

section \<open>Low battery: an edge on the server, a cooldown on the client\<close>

lemma checkLowBattery_detected:
  "fst (checkLowBattery push now userId previous level db) = lowBatteryDetected level previous"
  by (simp add: checkLowBattery_def split: option.splits)

lemma checkLowBattery_run_step:
  "checkLowBattery_run push userId previous ((now, level) # rest) db =
     lowBatteryDetected (Some level) previous #
     checkLowBattery_run push userId (Some level) rest (snd (checkLowBattery push now userId previous (Some level) db))"
  using checkLowBattery_detected [of push now userId previous "Some level" db]
  by (cases "checkLowBattery push now userId previous (Some level) db") simp

lemma batteryListener_run_step:
  "batteryListener_run uid profile ((now, level) # rest) st =
     fst (batteryListener now uid profile level st) #
     batteryListener_run uid profile rest (snd (batteryListener now uid profile level st))"
  by (cases "batteryListener now uid profile level st") simp

lemma batteryListener_sent_st:
  "fst (batteryListener now uid profile level st) =
     (case profile of
        None \<Rightarrow> False
      | Some p \<Rightarrow> round (level * 100) \<le> 20 \<and> str_truthy (p_familyId p) \<and> p_batteryAlerts p \<noteq> Some False \<and>
                  cooldownOver now BATTERY_COOLDOWN_PERIOD (lastLowBatteryAlertSent (fst st)))"
  by (cases st; cases profile) (simp_all add: batteryListener_sent)

lemma batteryListener_refs_st:
  "lastLowBatteryAlertSent (fst (snd (batteryListener now uid profile level st))) =
     (if fst (batteryListener now uid profile level st) then Some now
      else if round (level * 100) > 20 then None
      else lastLowBatteryAlertSent (fst st))"
  by (cases st) (simp only: batteryListener_refs fst_conv)

lemma lowBatteryDetected_iff:
  "lowBatteryDetected level previous =
     (case level of
        None \<Rightarrow> False
      | Some b \<Rightarrow> b \<le> 20 \<and> (case previous of None \<Rightarrow> True | Some p \<Rightarrow> p > 20))"
  by (simp add: lowBatteryDetected_def LOW_BATTERY_THRESHOLD_def split: option.splits)

lemma server_run:
  "checkLowBattery_run push userId None [(ta, 55), (tb, 18), (tc, 15), (td, 25), (te, 10)] db =
     [False, True, False, False, True]"
  by (simp only: checkLowBattery_run_step checkLowBattery_run.simps lowBatteryDetected_iff) simp

lemma client_run:
  assumes "str_truthy (p_familyId p)" and "p_batteryAlerts p \<noteq> Some False"
  shows "batteryListener_run uid (Some p)
           [(ta, 55 / 100), (tb, 18 / 100), (tc, 15 / 100), (td, 25 / 100), (te, 10 / 100)] st =
         [False, True, tb = 0 \<or> tc - tb > 15 * 60 * 1000, False, True]"
  using assms
  by (simp add: batteryListener_run_step batteryListener_sent_st batteryListener_refs_st cooldownOver_def
      BATTERY_COOLDOWN_PERIOD_def del: batteryListener_run.simps(2))

text \<open>
  C5, as the code has it. The server trigger detects a low battery exactly when the current
  reading is at most 20 and the previous one is absent or above 20; on the readings
  55, 18, 15, 25, 10 it detects at indices 1 and 4 and nowhere else, whatever the times.
  The client listener does not look at the previous reading: it notifies when the reading
  is at most 20, the profile has a family and does not disable battery alerts, and the time
  of its last alert is unset, 0, or more than 15 minutes old; it keeps the time of the
  alert, and clears it on a reading above 20. On the same readings it notifies at indices
  1 and 4, and at index 2 exactly when more than 15 minutes passed since index 1 (or index
  1 was at time 0).
\<close>

theorem low_battery_edge_server_cooldown_client:
  "fst (checkLowBattery push now userId previous level db) =
     (case level of
        None \<Rightarrow> False
      | Some b \<Rightarrow> b \<le> 20 \<and> (case previous of None \<Rightarrow> True | Some p \<Rightarrow> p > 20))
   \<and> checkLowBattery_run push userId None [(ta, 55), (tb, 18), (tc, 15), (td, 25), (te, 10)] db =
       [False, True, False, False, True]
   \<and> fst (batteryListener now userId profile fraction st) =
       (case profile of
          None \<Rightarrow> False
        | Some p \<Rightarrow> round (fraction * 100) \<le> 20 \<and> str_truthy (p_familyId p) \<and> p_batteryAlerts p \<noteq> Some False \<and>
                    cooldownOver now BATTERY_COOLDOWN_PERIOD (lastLowBatteryAlertSent (fst st)))
   \<and> lastLowBatteryAlertSent (fst (snd (batteryListener now userId profile fraction st))) =
       (if fst (batteryListener now userId profile fraction st) then Some now
        else if round (fraction * 100) > 20 then None
        else lastLowBatteryAlertSent (fst st))
   \<and> (str_truthy (p_familyId q) \<longrightarrow> p_batteryAlerts q \<noteq> Some False \<longrightarrow>
        batteryListener_run userId (Some q)
          [(ta, 55 / 100), (tb, 18 / 100), (tc, 15 / 100), (td, 25 / 100), (te, 10 / 100)] st =
        [False, True, tb = 0 \<or> tc - tb > 15 * 60 * 1000, False, True])"
  using checkLowBattery_detected [of push now userId previous level db]
    lowBatteryDetected_iff [of level previous]
    server_run [of push userId ta tb tc td te db]
    batteryListener_sent_st [of now userId profile fraction st]
    batteryListener_refs_st [of now userId profile fraction st]
    client_run [of q userId ta tb tc td te st]
  by simp

theorem low_battery_edge_server_cooldown_client_witness:
  "checkLowBattery_run (\<lambda>t. Resolved) ''alice'' None
       [(1000000, 55), (2000000, 18), (3000000, 15), (4000000, 25), (5000000, 10)] db0 =
     [False, True, False, False, True]
   \<and> batteryListener_run ''alice'' (Some profile0)
       [(1000000, 55 / 100), (1060000, 18 / 100), (1120000, 15 / 100), (1180000, 25 / 100), (1240000, 10 / 100)]
       (refs0, db0) =
     [False, True, False, False, True]"
proof -
  have p: "str_truthy (p_familyId profile0)" "p_batteryAlerts profile0 \<noteq> Some False"
    by (simp_all add: profile0_def)
  show ?thesis
    using p low_battery_edge_server_cooldown_client [where push = "\<lambda>t. Resolved" and userId = "''alice''"
        and ta = 1000000 and tb = 2000000 and tc = 3000000 and td = 4000000 and te = 5000000 and db = db0]
      low_battery_edge_server_cooldown_client [where userId = "''alice''" and q = profile0
        and ta = 1000000 and tb = 1060000 and tc = 1120000 and td = 1180000 and te = 1240000 and st = "(refs0, db0)"]
    by simp
qed

text \<open>
  The claim as stated fails on the client: with readings a little under 17 minutes apart,
  the listener notifies at index 2 as well (15 after 18, with no crossing of the
  threshold).
\<close>

theorem low_battery_edge_triggered_counterexample:
  "batteryListener_run ''alice'' (Some profile0)
       [(1000000, 55 / 100), (2000000, 18 / 100), (3000000, 15 / 100), (4000000, 25 / 100), (5000000, 10 / 100)]
       (refs0, db0) =
     [False, True, True, False, True]"
proof -
  have p: "str_truthy (p_familyId profile0)" "p_batteryAlerts profile0 \<noteq> Some False"
    by (simp_all add: profile0_def)
  show ?thesis
    using client_run [OF p, of "''alice''" 1000000 2000000 3000000 4000000 5000000 "(refs0, db0)"]
    by simp
qed

section \<open>Saving a geofence\<close>

lemma last_dropWhile_nonempty: "dropWhile P xs \<noteq> [] \<Longrightarrow> last (dropWhile P xs) = last xs"
  by (metis last_appendR takeWhile_dropWhile_id)

lemma trim_idem: "trim (trim s) = trim s"
proof -
  let ?t = "dropWhile is_space s"
  let ?u = "dropWhile is_space (rev ?t)"
  have t: "trim s = rev ?u" by (simp add: trim_def)
  have u1: "dropWhile is_space ?u = ?u" by simp
  have u2: "dropWhile is_space (rev ?u) = rev ?u"
  proof (cases "?u = []")
    case True
    show ?thesis unfolding True by simp
  next
    case False
    have tne: "?t \<noteq> []"
    proof
      assume e: "?t = []"
      have "?u = []" unfolding e by simp
      with False show False by simp
    qed
    have "hd (rev ?u) = last ?u" using False by (simp add: hd_rev)
    also have "\<dots> = last (rev ?t)" using False by (rule last_dropWhile_nonempty)
    also have "\<dots> = hd ?t" using tne by (simp add: last_rev)
    finally have "\<not> is_space (hd (rev ?u))" using tne hd_dropWhile [of is_space s] by simp
    then show ?thesis by (simp add: dropWhile_eq_self_iff)
  qed
  show ?thesis
    unfolding t by (simp add: trim_def u2)
qed

lemma round_in_range:
  assumes "\<not> (x < MIN_RADIUS \<or> x > MAX_RADIUS)"
  shows "50 \<le> round x \<and> round x \<le> 5000"
proof -
  have lo: "(50::real) \<le> x" and hi: "x \<le> 5000"
    using assms by (simp_all add: MIN_RADIUS_def MAX_RADIUS_def)
  from round_mono [OF lo] round_mono [OF hi] show ?thesis by simp
qed

lemma handleSave_written:
  assumes "handleSave s = UpdateDoc i d \<or> handleSave s = AddDoc d"
  shows "50 \<le> d_radius d \<and> d_radius d \<le> 5000 \<and> d_radius d = round (e_radius s) \<and>
         d_name d = trim (e_name s) \<and> d_name d \<noteq> [] \<and> trim (d_name d) = d_name d \<and>
         e_center s = Some (d_center d) \<and> e_isAdmin s \<and> e_familyId s = Some (d_familyId d)"
proof -
  from assms have ok: "e_user s \<noteq> None" "str_truthy (e_familyId s)" "e_isAdmin s" "e_center s \<noteq> None"
      "trim (e_name s) \<noteq> []" "\<not> (e_radius s < MIN_RADIUS \<or> e_radius s > MAX_RADIUS)"
    by (auto simp: handleSave_def Let_def split: if_splits option.splits)
  then obtain c f where c: "e_center s = Some c" and f: "e_familyId s = Some f"
    by (cases "e_familyId s") auto
  have d: "d = \<lparr>d_name = trim (e_name s), d_radius = round (e_radius s), d_center = c, d_familyId = f\<rparr>"
    using assms ok c f by (auto simp: handleSave_def Let_def split: if_splits)
  show ?thesis
    using round_in_range [OF ok(6)] ok c f by (simp add: d trim_idem)
qed

lemma handleSave_rejected_iff:
  "(\<exists>r. handleSave s = Alert r) =
     (e_user s = None \<or> e_familyId s = None \<or> e_familyId s = Some [] \<or> e_isAdmin s = False \<or> e_center s = None \<or>
      trim (e_name s) = [] \<or> e_radius s < 50 \<or> e_radius s > 5000)"
  by (cases "e_familyId s")
     (auto simp: handleSave_def Let_def MIN_RADIUS_def MAX_RADIUS_def split: if_splits option.splits)

text \<open>
  C8. A save that the edit screen accepts issues one write, of a document whose radius is
  the rounded radius of the screen, an integer between 50 and 5000, whose name is the
  trimmed name of the screen, not empty, and whose center is the center set on the screen.
  A save with a radius below 50 or above 5000, a name that is empty once trimmed, or no
  center ends in an alert and writes nothing.
\<close>

theorem handleSave_bounded_radius:
  "(handleSave s = UpdateDoc i d \<or> handleSave s = AddDoc d \<longrightarrow>
      50 \<le> d_radius d \<and> d_radius d \<le> 5000 \<and> d_radius d = round (e_radius s) \<and>
      d_name d = trim (e_name s) \<and> d_name d \<noteq> [] \<and> trim (d_name d) = d_name d \<and>
      e_center s = Some (d_center d))
   \<and> (e_radius s < 50 \<or> e_radius s > 5000 \<or> trim (e_name s) = [] \<or> e_center s = None \<longrightarrow>
        (\<exists>r. handleSave s = Alert r))"
  using handleSave_written [of s i d] handleSave_rejected_iff [of s]
  by blast

theorem handleSave_bounded_radius_witness:
  "handleSave screen0 =
     AddDoc \<lparr>d_name = ''Home'', d_radius = 200, d_center = (37, -122), d_familyId = ''fam''\<rparr>
   \<and> d_radius \<lparr>d_name = ''Home'', d_radius = 200, d_center = (37, -122), d_familyId = ''fam''\<rparr> = round (e_radius screen0)
   \<and> trim (e_name screen0) = ''Home''
   \<and> (\<exists>r. handleSave (screen0\<lparr>e_radius := 0\<rparr>) = Alert r)
   \<and> (\<exists>r. handleSave (screen0\<lparr>e_name := ''   ''\<rparr>) = Alert r)"
proof -
  have a: "handleSave screen0 =
     AddDoc \<lparr>d_name = ''Home'', d_radius = 200, d_center = (37, -122), d_familyId = ''fam''\<rparr>"
    by (simp add: handleSave_def screen0_def trim_def is_space_def MIN_RADIUS_def MAX_RADIUS_def round_def)
  have b: "trim (e_name (screen0\<lparr>e_name := ''   ''\<rparr>)) = []"
    by (simp add: trim_def is_space_def)
  show ?thesis
    using a b
      handleSave_bounded_radius [where s = screen0 and i = "''x''"
        and d = "\<lparr>d_name = ''Home'', d_radius = 200, d_center = (37, -122), d_familyId = ''fam''\<rparr>"]
      handleSave_bounded_radius [where s = "screen0\<lparr>e_radius := 0\<rparr>"]
      handleSave_bounded_radius [where s = "screen0\<lparr>e_name := ''   ''\<rparr>"]
    by simp
qed

section \<open>The cooldown gate of the server and what it lets through\<close>

lemma map_of_clearToken_other: "x \<noteq> r \<Longrightarrow> map_of (clearToken x us) r = map_of us r"
  by (induction us) (auto simp: clearToken_def)

lemma pushToken_sendAndStoreNotification_other:
  "x \<noteq> r \<Longrightarrow> pushToken r (sendAndStoreNotification push now x core db) = pushToken r db"
  by (simp add: pushToken_def sendAndStoreNotification_def Let_def map_of_clearToken_other
      split: option.splits push_result.splits)

lemma notifications_kept_send:
  "n \<in> set (notifications db) \<Longrightarrow> n \<in> set (notifications (sendAndStoreNotification push now x core db))"
  using extends_sendAndStoreNotification [of core x now db push] by (auto simp: extends_def)

lemma notifications_kept_fold:
  "n \<in> set (notifications db) \<Longrightarrow>
   n \<in> set (notifications (fold (\<lambda>m. sendAndStoreNotification push now m core) rs db))"
  by (induction rs arbitrary: db) (simp_all add: notifications_kept_send)

lemma fold_send_delivers:
  "r \<in> set rs \<Longrightarrow> pushToken r db = Some t \<Longrightarrow> push t = Resolved \<Longrightarrow>
   stored core r now \<in> set (notifications (fold (\<lambda>m. sendAndStoreNotification push now m core) rs db))"
proof (induction rs arbitrary: db)
  case Nil
  then show ?case by simp
next
  case (Cons x xs)
  show ?case
  proof (cases "x = r")
    case True
    have "stored core r now \<in> set (notifications (sendAndStoreNotification push now r core db))"
      using sendAndStoreNotification_resolved [where r = r and db = db and t = t and push = push
          and now = now and core = core] Cons.prems(2) Cons.prems(3)
      by simp
    then show ?thesis using True by (simp add: notifications_kept_fold)
  next
    case False
    then have "r \<in> set xs" using Cons.prems(1) by simp
    moreover have "pushToken r (sendAndStoreNotification push now x core db) = Some t"
      using False Cons.prems(2) by (simp add: pushToken_sendAndStoreNotification_other)
    ultimately show ?thesis using Cons.IH Cons.prems(3) by simp
  qed
qed

lemma notifyOthers_delivers:
  "r \<in> set members \<Longrightarrow> r \<noteq> userId \<Longrightarrow> pushToken r db = Some t \<Longrightarrow> push t = Resolved \<Longrightarrow>
   stored core r now \<in> set (notifications (notifyOthers push now userId members core db))"
  unfolding notifyOthers_def by (rule fold_send_delivers) simp_all

lemma onSosActivated_dispatch:
  "familyOf userId db = Some familyId \<Longrightarrow>
   onSosActivated push now userId (JBool True) location db =
     notifyOthers push now userId (membersOf familyId db)
       \<lparr>k_type = sos, k_familyId = familyId, k_triggeringUid = Some userId,
        k_relatedGeofenceId = None, k_relatedLocation = sosLocation location\<rparr> db"
  by (simp add: onSosActivated_def)

lemma checkLowBattery_gate:
  "lowBatteryDetected level previous \<Longrightarrow>
   snd (checkLowBattery push now userId previous level db) =
     (if cooldownActive now COOLDOWN_lowBattery (recentNotifQuery userId db) then db
      else (case familyOf userId db of
              None \<Rightarrow> db
            | Some familyId \<Rightarrow>
                notifyOthers push now userId (membersOf familyId db)
                  \<lparr>k_type = low_battery, k_familyId = familyId, k_triggeringUid = Some userId,
                   k_relatedGeofenceId = None, k_relatedLocation = None\<rparr> db))"
  by (simp add: checkLowBattery_def split: option.splits)

lemma checkGeofences_fence_db:
  assumes "\<not> fenceInvalid fence" and "g_center fence = Some c"
    and "checkGeofences_eventType
            (the_number (l_latitude old)) (the_number (l_longitude old))
            (the_number (l_latitude new)) (the_number (l_longitude new))
            (the_number (c_latitude c)) (the_number (c_longitude c))
            (the_number (g_radius fence)) = Some e"
  shows "snd (snd (checkGeofences_fence push now userId familyId members old new (fenceId, fence) (detected, allowed, db))) =
         (if cooldownActive now COOLDOWN_geofence (cooldownQuery userId fenceId e db) then db
          else notifyOthers push now userId members
                 \<lparr>k_type = e, k_familyId = familyId, k_triggeringUid = Some userId,
                  k_relatedGeofenceId = Some fenceId,
                  k_relatedLocation = Some (the_number (l_latitude new), the_number (l_longitude new))\<rparr> db)"
  using assms by (simp add: checkGeofences_fence_def)

text \<open>
  C4, as the code has it. The gate of the server allows a geofence candidate exactly when
  the log holds no record of the same subject, fence and kind, or the latest such record
  is at least 5 minutes old (\<open>now - timestamp \<ge> 300000\<close>: a record exactly 5 minutes old
  no longer blocks), and a low-battery candidate exactly when it holds no low-battery
  record of the subject or the latest is at least 15 minutes old. Records of another fence
  or of another kind do not change the query of a fence and kind. What the gate decides is
  what happens: a detected event of a valid fence joins the events allowed and is handed to
  the fan-out exactly when the gate allows it, and the store is unchanged when it blocks;
  a detected low battery is handed to the fan-out of the subject's family exactly when the
  gate allows it, and the store is unchanged when it blocks. The SOS trigger runs no
  query: on \<open>true\<close> it hands the event to the fan-out of the subject's family whatever the
  log holds, and what it adds does not depend on the log. In each of the three fan-outs
  every other member whose token is set and whose push succeeds gets the record.
\<close>

theorem cooldown_gate_server:
  "(\<not> cooldownActive now COOLDOWN_geofence (cooldownQuery userId fenceId eventType db)) =
     (let matching = filter (\<lambda>n. n_triggeringUid n = Some userId \<and> n_relatedGeofenceId n = Some fenceId \<and>
                                 n_type n = eventType) (notifications db)
      in matching = [] \<or> now - Max (n_timestamp ` set matching) \<ge> 5 * 60 * 1000)
   \<and> (\<not> cooldownActive now COOLDOWN_lowBattery (recentNotifQuery userId db)) =
     (let matching = filter (\<lambda>n. n_triggeringUid n = Some userId \<and> n_type n = low_battery) (notifications db)
      in matching = [] \<or> now - Max (n_timestamp ` set matching) \<ge> 15 * 60 * 1000)
   \<and> ((\<forall>n\<in>set others. n_relatedGeofenceId n \<noteq> Some fenceId \<or> n_type n \<noteq> eventType) \<longrightarrow>
        cooldownQuery userId fenceId eventType (db\<lparr>notifications := notifications db @ others\<rparr>) =
        cooldownQuery userId fenceId eventType db)
   \<and> (\<not> fenceInvalid fence \<longrightarrow> g_center fence = Some c \<longrightarrow>
        checkGeofences_eventType
            (the_number (l_latitude old)) (the_number (l_longitude old))
            (the_number (l_latitude new)) (the_number (l_longitude new))
            (the_number (c_latitude c)) (the_number (c_longitude c))
            (the_number (g_radius fence)) = Some eventType \<longrightarrow>
        fst (snd (checkGeofences_fence push now userId familyId members old new (fenceId, fence) (detected, allowed, db))) =
          allowed @ (if cooldownActive now COOLDOWN_geofence (cooldownQuery userId fenceId eventType db)
                     then [] else [(fenceId, eventType)])
        \<and> snd (snd (checkGeofences_fence push now userId familyId members old new (fenceId, fence) (detected, allowed, db))) =
          (if cooldownActive now COOLDOWN_geofence (cooldownQuery userId fenceId eventType db) then db
           else notifyOthers push now userId members
                  \<lparr>k_type = eventType, k_familyId = familyId, k_triggeringUid = Some userId,
                   k_relatedGeofenceId = Some fenceId,
                   k_relatedLocation = Some (the_number (l_latitude new), the_number (l_longitude new))\<rparr> db))
   \<and> (cooldownActive now COOLDOWN_lowBattery (recentNotifQuery userId db) \<longrightarrow>
        snd (checkLowBattery push now userId previous level db) = db)
   \<and> (lowBatteryDetected level previous \<longrightarrow>
        \<not> cooldownActive now COOLDOWN_lowBattery (recentNotifQuery userId db) \<longrightarrow>
        familyOf userId db = Some familyId \<longrightarrow>
        snd (checkLowBattery push now userId previous level db) =
          notifyOthers push now userId (membersOf familyId db)
            \<lparr>k_type = low_battery, k_familyId = familyId, k_triggeringUid = Some userId,
             k_relatedGeofenceId = None, k_relatedLocation = None\<rparr> db)
   \<and> (familyOf userId db = Some familyId \<longrightarrow>
        onSosActivated push now userId (JBool True) location db =
          notifyOthers push now userId (membersOf familyId db)
            \<lparr>k_type = sos, k_familyId = familyId, k_triggeringUid = Some userId,
             k_relatedGeofenceId = None, k_relatedLocation = sosLocation location\<rparr> db)
   \<and> onSosActivated push now userId after location (db\<lparr>notifications := ns\<rparr>) =
        (onSosActivated push now userId after location (db\<lparr>notifications := []\<rparr>))
          \<lparr>notifications := ns @ notifications (onSosActivated push now userId after location (db\<lparr>notifications := []\<rparr>))\<rparr>
   \<and> (r \<in> set recipients \<longrightarrow> r \<noteq> userId \<longrightarrow> pushToken r db = Some t \<longrightarrow> push t = Resolved \<longrightarrow>
        stored core r now \<in> set (notifications (notifyOthers push now userId recipients core db)))"
proof -
  have g: "(\<not> cooldownActive now COOLDOWN_geofence (cooldownQuery userId fenceId eventType db)) =
     (let matching = filter (\<lambda>n. n_triggeringUid n = Some userId \<and> n_relatedGeofenceId n = Some fenceId \<and>
                                 n_type n = eventType) (notifications db)
      in matching = [] \<or> now - Max (n_timestamp ` set matching) \<ge> 5 * 60 * 1000)"
    unfolding cooldownQuery_def cooldownActive_latest Let_def COOLDOWN_geofence_def by auto
  have b: "(\<not> cooldownActive now COOLDOWN_lowBattery (recentNotifQuery userId db)) =
     (let matching = filter (\<lambda>n. n_triggeringUid n = Some userId \<and> n_type n = low_battery) (notifications db)
      in matching = [] \<or> now - Max (n_timestamp ` set matching) \<ge> 15 * 60 * 1000)"
    unfolding recentNotifQuery_def cooldownActive_latest Let_def COOLDOWN_lowBattery_def by auto
  have i: "(\<forall>n\<in>set others. n_relatedGeofenceId n \<noteq> Some fenceId \<or> n_type n \<noteq> eventType) \<longrightarrow>
        cooldownQuery userId fenceId eventType (db\<lparr>notifications := notifications db @ others\<rparr>) =
        cooldownQuery userId fenceId eventType db"
  proof
    assume a: "\<forall>n\<in>set others. n_relatedGeofenceId n \<noteq> Some fenceId \<or> n_type n \<noteq> eventType"
    have "filter (\<lambda>n. n_triggeringUid n = Some userId \<and> n_relatedGeofenceId n = Some fenceId \<and>
                                 n_type n = eventType) (notifications db @ others) =
          filter (\<lambda>n. n_triggeringUid n = Some userId \<and> n_relatedGeofenceId n = Some fenceId \<and>
                                 n_type n = eventType) (notifications db)"
      by (rule filter_append_none) (use a in auto)
    then show "cooldownQuery userId fenceId eventType (db\<lparr>notifications := notifications db @ others\<rparr>) =
        cooldownQuery userId fenceId eventType db"
      by (simp add: cooldownQuery_def)
  qed
  have lb: "lowBatteryDetected level previous \<longrightarrow>
        \<not> cooldownActive now COOLDOWN_lowBattery (recentNotifQuery userId db) \<longrightarrow>
        familyOf userId db = Some familyId \<longrightarrow>
        snd (checkLowBattery push now userId previous level db) =
          notifyOthers push now userId (membersOf familyId db)
            \<lparr>k_type = low_battery, k_familyId = familyId, k_triggeringUid = Some userId,
             k_relatedGeofenceId = None, k_relatedLocation = None\<rparr> db"
    using checkLowBattery_gate [where level = level and previous = previous and push = push and now = now
        and userId = userId and db = db]
    by simp
  show ?thesis
    using g b i lb
      checkGeofences_fence_allowed [where fence = fence and c = c and old = old and new = new
        and e = eventType and push = push and now = now and userId = userId and familyId = familyId
        and members = members and fenceId = fenceId and detected = detected and allowed = allowed and db = db]
      checkGeofences_fence_db [where fence = fence and c = c and old = old and new = new
        and e = eventType and push = push and now = now and userId = userId and familyId = familyId
        and members = members and fenceId = fenceId and detected = detected and allowed = allowed and db = db]
      checkLowBattery_blocked [where now = now and userId = userId and db = db and push = push
        and previous = previous and level = level]
      onSosActivated_dispatch [where userId = userId and db = db and familyId = familyId and push = push
        and now = now and location = location]
      onSosActivated_frame [where push = push and now = now and userId = userId and after = after
        and location = location and ns = ns and db = db]
      notifyOthers_delivers [where r = r and members = recipients and userId = userId and db = db and t = t
        and push = push and core = core and now = now]
    by blast
qed

lemma db0_facts:
  "familyOf ''alice'' db0 = Some ''fam''" "membersOf ''fam'' db0 = [''alice'', ''bob'']"
  "pushToken ''bob'' db0 = Some ''tokB''"
  by (simp_all add: familyOf_def membersOf_def pushToken_def db0_def)

lemma frame_facts:
  "familyOf u (db\<lparr>notifications := ns\<rparr>) = familyOf u db"
  "membersOf f (db\<lparr>notifications := ns\<rparr>) = membersOf f db"
  "pushToken r (db\<lparr>notifications := ns\<rparr>) = pushToken r db"
  by (simp_all add: familyOf_def membersOf_def pushToken_def)

lemma matching_db4:
  "filter (\<lambda>n. n_triggeringUid n = Some ''alice'' \<and> n_type n = low_battery) (notifications db4) = [note4]"
  by (simp add: db4_def note4_def)

theorem cooldown_gate_server_witness:
  "cooldownActive 1060000 COOLDOWN_geofence (cooldownQuery ''alice'' ''home'' geofence_entry db1)
   \<and> \<not> cooldownActive 1360000 COOLDOWN_geofence (cooldownQuery ''alice'' ''home'' geofence_entry db1)
   \<and> \<not> cooldownActive 1060000 COOLDOWN_geofence (cooldownQuery ''alice'' ''school'' geofence_entry db1)
   \<and> \<not> cooldownActive 1060000 COOLDOWN_geofence (cooldownQuery ''alice'' ''home'' geofence_exit db1)
   \<and> snd (checkGeofences_fence (\<lambda>t. Resolved) 1060000 ''alice'' ''fam'' [''alice'', ''bob'']
            \<lparr>l_latitude = JNum (-90), l_longitude = JNum 90\<rparr> \<lparr>l_latitude = JNum 90, l_longitude = JNum 90\<rparr>
            (''home'', gfence0) ([], [], db1)) = ([], db1)
   \<and> fst (snd (checkGeofences_fence (\<lambda>t. Resolved) 1360000 ''alice'' ''fam'' [''alice'', ''bob'']
            \<lparr>l_latitude = JNum (-90), l_longitude = JNum 90\<rparr> \<lparr>l_latitude = JNum 90, l_longitude = JNum 90\<rparr>
            (''home'', gfence0) ([], [], db1))) = [(''home'', geofence_entry)]
   \<and> stored \<lparr>k_type = geofence_entry, k_familyId = ''fam'', k_triggeringUid = Some ''alice'',
              k_relatedGeofenceId = Some ''home'', k_relatedLocation = Some (90, 90)\<rparr> ''bob'' 1360000
        \<in> set (notifications (snd (snd (checkGeofences_fence (\<lambda>t. Resolved) 1360000 ''alice'' ''fam'' [''alice'', ''bob'']
            \<lparr>l_latitude = JNum (-90), l_longitude = JNum 90\<rparr> \<lparr>l_latitude = JNum 90, l_longitude = JNum 90\<rparr>
            (''home'', gfence0) ([], [], db1)))))
   \<and> snd (checkLowBattery (\<lambda>t. Resolved) 1060000 ''alice'' (Some 55) (Some 15) db4) = db4
   \<and> stored \<lparr>k_type = low_battery, k_familyId = ''fam'', k_triggeringUid = Some ''alice'',
              k_relatedGeofenceId = None, k_relatedLocation = None\<rparr> ''bob'' 1960000
        \<in> set (notifications (snd (checkLowBattery (\<lambda>t. Resolved) 1960000 ''alice'' (Some 55) (Some 15) db4)))
   \<and> stored \<lparr>k_type = sos, k_familyId = ''fam'', k_triggeringUid = Some ''alice'',
              k_relatedGeofenceId = None, k_relatedLocation = None\<rparr> ''bob'' 1000001
        \<in> set (notifications (onSosActivated (\<lambda>t. Resolved) 1000001 ''alice'' (JBool True) None db3))"
proof -
  have m: "filter (\<lambda>n. n_triggeringUid n = Some ''alice'' \<and> n_relatedGeofenceId n = Some ''home'' \<and>
                        n_type n = geofence_entry) (notifications db1) = [note1]"
    by (simp add: db1_def note1_def)
  have m2: "filter (\<lambda>n. n_triggeringUid n = Some ''alice'' \<and> n_relatedGeofenceId n = Some ''school'' \<and>
                        n_type n = geofence_entry) (notifications db1) = []"
    by (simp add: db1_def note1_def)
  have m3: "filter (\<lambda>n. n_triggeringUid n = Some ''alice'' \<and> n_relatedGeofenceId n = Some ''home'' \<and>
                        n_type n = geofence_exit) (notifications db1) = []"
    by (simp add: db1_def note1_def)
  have ts: "n_timestamp note1 = 1000000" "n_timestamp note4 = 1000000"
    by (simp_all add: note1_def note4_def)
  have valid: "\<not> fenceInvalid gfence0"
    by (simp add: gfence0_def fenceInvalid_def fieldInvalid_def)
  have center: "g_center gfence0 = Some \<lparr>c_latitude = JNum 90, c_longitude = JNum 90\<rparr>"
    and radius: "g_radius gfence0 = JNum 100"
    by (simp_all add: gfence0_def)
  have fam: "familyOf ''alice'' db1 = Some ''fam''" "familyOf ''alice'' db3 = Some ''fam''"
    "familyOf ''alice'' db4 = Some ''fam''"
    "membersOf ''fam'' db3 = [''alice'', ''bob'']" "membersOf ''fam'' db4 = [''alice'', ''bob'']"
    "pushToken ''bob'' db1 = Some ''tokB''" "pushToken ''bob'' db3 = Some ''tokB''"
    "pushToken ''bob'' db4 = Some ''tokB''"
    by (simp_all add: db1_def db3_def db4_def frame_facts db0_facts)
  have det: "lowBatteryDetected (Some 15) (Some 55)"
    by (simp add: lowBatteryDetected_def LOW_BATTERY_THRESHOLD_def)
  note g = cooldown_gate_server [where userId = "''alice''" and db = db1 and push = "\<lambda>t. Resolved"
      and familyId = "''fam''" and members = "[''alice'', ''bob'']" and fence = gfence0
      and c = "\<lparr>c_latitude = JNum 90, c_longitude = JNum 90\<rparr>"
      and old = "\<lparr>l_latitude = JNum (-90), l_longitude = JNum 90\<rparr>"
      and new = "\<lparr>l_latitude = JNum 90, l_longitude = JNum 90\<rparr>"
      and detected = "[]" and allowed = "[]" and recipients = "[''alice'', ''bob'']"
      and r = "''bob''" and t = "''tokB''"
      and core = "\<lparr>k_type = geofence_entry, k_familyId = ''fam'', k_triggeringUid = Some ''alice'',
              k_relatedGeofenceId = Some ''home'', k_relatedLocation = Some (90, 90)\<rparr>"]
  have a1: "cooldownActive 1060000 COOLDOWN_geofence (cooldownQuery ''alice'' ''home'' geofence_entry db1)"
    using g [where now = 1060000 and fenceId = "''home''" and eventType = geofence_entry]
    by (simp add: m ts)
  have a2: "\<not> cooldownActive 1360000 COOLDOWN_geofence (cooldownQuery ''alice'' ''home'' geofence_entry db1)"
    using g [where now = 1360000 and fenceId = "''home''" and eventType = geofence_entry]
    by (simp add: m ts)
  have a3: "\<not> cooldownActive 1060000 COOLDOWN_geofence (cooldownQuery ''alice'' ''school'' geofence_entry db1)"
    using g [where now = 1060000 and fenceId = "''school''" and eventType = geofence_entry]
    by (simp add: m2)
  have a4: "\<not> cooldownActive 1060000 COOLDOWN_geofence (cooldownQuery ''alice'' ''home'' geofence_exit db1)"
    using g [where now = 1060000 and fenceId = "''home''" and eventType = geofence_exit]
    by (simp add: m3)
  have a5: "snd (checkGeofences_fence (\<lambda>t. Resolved) 1060000 ''alice'' ''fam'' [''alice'', ''bob'']
            \<lparr>l_latitude = JNum (-90), l_longitude = JNum 90\<rparr> \<lparr>l_latitude = JNum 90, l_longitude = JNum 90\<rparr>
            (''home'', gfence0) ([], [], db1)) = ([], db1)"
    using g [where now = 1060000 and fenceId = "''home''" and eventType = geofence_entry]
      valid center radius eventType_pole_entry a1
    by (simp add: prod_eq_iff)
  have a6: "fst (snd (checkGeofences_fence (\<lambda>t. Resolved) 1360000 ''alice'' ''fam'' [''alice'', ''bob'']
            \<lparr>l_latitude = JNum (-90), l_longitude = JNum 90\<rparr> \<lparr>l_latitude = JNum 90, l_longitude = JNum 90\<rparr>
            (''home'', gfence0) ([], [], db1))) = [(''home'', geofence_entry)]"
    and a7: "stored \<lparr>k_type = geofence_entry, k_familyId = ''fam'', k_triggeringUid = Some ''alice'',
              k_relatedGeofenceId = Some ''home'', k_relatedLocation = Some (90, 90)\<rparr> ''bob'' 1360000
        \<in> set (notifications (snd (snd (checkGeofences_fence (\<lambda>t. Resolved) 1360000 ''alice'' ''fam'' [''alice'', ''bob'']
            \<lparr>l_latitude = JNum (-90), l_longitude = JNum 90\<rparr> \<lparr>l_latitude = JNum 90, l_longitude = JNum 90\<rparr>
            (''home'', gfence0) ([], [], db1)))))"
    using g [where now = 1360000 and fenceId = "''home''" and eventType = geofence_entry]
      valid center radius eventType_pole_entry a2 fam
    by simp_all
  note l = cooldown_gate_server [where userId = "''alice''" and db = db4 and push = "\<lambda>t. Resolved"
      and familyId = "''fam''" and previous = "Some 55" and level = "Some 15"
      and recipients = "[''alice'', ''bob'']" and r = "''bob''" and t = "''tokB''"
      and core = "\<lparr>k_type = low_battery, k_familyId = ''fam'', k_triggeringUid = Some ''alice'',
              k_relatedGeofenceId = None, k_relatedLocation = None\<rparr>"]
  have b1: "snd (checkLowBattery (\<lambda>t. Resolved) 1060000 ''alice'' (Some 55) (Some 15) db4) = db4"
    using l [where now = 1060000] by (simp add: matching_db4 ts)
  have b2: "stored \<lparr>k_type = low_battery, k_familyId = ''fam'', k_triggeringUid = Some ''alice'',
              k_relatedGeofenceId = None, k_relatedLocation = None\<rparr> ''bob'' 1960000
        \<in> set (notifications (snd (checkLowBattery (\<lambda>t. Resolved) 1960000 ''alice'' (Some 55) (Some 15) db4)))"
    using l [where now = 1960000] det fam by (simp add: matching_db4 ts)
  have c1: "stored \<lparr>k_type = sos, k_familyId = ''fam'', k_triggeringUid = Some ''alice'',
              k_relatedGeofenceId = None, k_relatedLocation = None\<rparr> ''bob'' 1000001
        \<in> set (notifications (onSosActivated (\<lambda>t. Resolved) 1000001 ''alice'' (JBool True) None db3))"
    using cooldown_gate_server [where userId = "''alice''" and db = db3 and push = "\<lambda>t. Resolved"
        and familyId = "''fam''" and now = 1000001 and location = None
        and recipients = "[''alice'', ''bob'']" and r = "''bob''" and t = "''tokB''"
        and core = "\<lparr>k_type = sos, k_familyId = ''fam'', k_triggeringUid = Some ''alice'',
              k_relatedGeofenceId = None, k_relatedLocation = None\<rparr>"]
      fam
    by (simp add: sosLocation_def)
  from a1 a2 a3 a4 a5 a6 a7 b1 b2 c1 show ?thesis by simp
qed

text \<open>
  The claim as stated fails at the boundary of the window: a record exactly 5 minutes old
  (15 minutes for a low battery) is not older than the window, and the gate allows the
  event.
\<close>

theorem cooldown_older_than_window_counterexample:
  "filter (\<lambda>n. n_triggeringUid n = Some ''alice'' \<and> n_relatedGeofenceId n = Some ''home'' \<and>
                n_type n = geofence_entry) (notifications db1) = [note1]
   \<and> \<not> 1300000 - n_timestamp note1 > 5 * 60 * 1000
   \<and> \<not> cooldownActive 1300000 COOLDOWN_geofence (cooldownQuery ''alice'' ''home'' geofence_entry db1)
   \<and> fst (snd (checkGeofences_fence (\<lambda>t. Resolved) 1300000 ''alice'' ''fam'' [''alice'', ''bob'']
            \<lparr>l_latitude = JNum (-90), l_longitude = JNum 90\<rparr> \<lparr>l_latitude = JNum 90, l_longitude = JNum 90\<rparr>
            (''home'', gfence0) ([], [], db1))) = [(''home'', geofence_entry)]
   \<and> filter (\<lambda>n. n_triggeringUid n = Some ''alice'' \<and> n_type n = low_battery) (notifications db4) = [note4]
   \<and> \<not> 1900000 - n_timestamp note4 > 15 * 60 * 1000
   \<and> \<not> cooldownActive 1900000 COOLDOWN_lowBattery (recentNotifQuery ''alice'' db4)"
proof -
  have valid: "\<not> fenceInvalid gfence0"
    by (simp add: gfence0_def fenceInvalid_def fieldInvalid_def)
  have g: "\<not> cooldownActive 1300000 COOLDOWN_geofence (cooldownQuery ''alice'' ''home'' geofence_entry db1)"
    by (simp add: cooldownQuery_def cooldownActive_latest matching_db1 COOLDOWN_geofence_def note1_def)
  have b: "\<not> cooldownActive 1900000 COOLDOWN_lowBattery (recentNotifQuery ''alice'' db4)"
    by (simp add: recentNotifQuery_def cooldownActive_latest matching_db4 COOLDOWN_lowBattery_def note4_def)
  have s: "fst (snd (checkGeofences_fence (\<lambda>t. Resolved) 1300000 ''alice'' ''fam'' [''alice'', ''bob'']
            \<lparr>l_latitude = JNum (-90), l_longitude = JNum 90\<rparr> \<lparr>l_latitude = JNum 90, l_longitude = JNum 90\<rparr>
            (''home'', gfence0) ([], [], db1))) = [(''home'', geofence_entry)]"
    using checkGeofences_fence_allowed [where fence = gfence0 and c = "\<lparr>c_latitude = JNum 90, c_longitude = JNum 90\<rparr>"
        and old = "\<lparr>l_latitude = JNum (-90), l_longitude = JNum 90\<rparr>"
        and new = "\<lparr>l_latitude = JNum 90, l_longitude = JNum 90\<rparr>" and e = geofence_entry
        and now = 1300000 and userId = "''alice''" and fenceId = "''home''" and allowed = "[]" and db = db1,
        OF valid]
      g eventType_pole_entry
    by (simp add: gfence0_def)
  show ?thesis
    using g b s by (simp add: matching_db1 matching_db4 note1_def note4_def)
qed

end
